theory Spec2Isabelle
  imports Complex_Main "HOL-Library.AList"
begin

section \<open>Python values\<close>

text \<open>
  The fingerprint payload is whatever \<^verbatim>\<open>request.get_json()\<close> parsed: \<^verbatim>\<open>None\<close>, booleans,
  integers, floats, strings, lists and dictionaries with string keys. A dictionary is an
  association list read with \<open>map_of\<close> (the first binding of a key is the dictionary's).
  A float is the rational it denotes; the non-finite floats (\<^verbatim>\<open>nan\<close>, \<^verbatim>\<open>inf\<close>) are outside
  the model. Strings are lists of characters with code points below 256.
\<close>

datatype pyval =
    PNone
  | PBool bool
  | PInt int
  | PFloat rat
  | PStr string
  | PList "pyval list"
  | PDict "(string \<times> pyval) list"

text \<open>The exceptions the analysed code can raise. \<open>BadRequest\<close> is the one Flask's
  \<^verbatim>\<open>get_json\<close> raises; the others come from the operations on payload values.\<close>

datatype pyexc = AttributeError | TypeError | ValueError | OverflowError | BadRequest

text \<open>Sequencing of computations that may raise: the first exception wins.\<close>

definition bind_exc :: "pyexc + 'a \<Rightarrow> ('a \<Rightarrow> pyexc + 'b) \<Rightarrow> pyexc + 'b" where
  "bind_exc m f = (case m of Inl e \<Rightarrow> Inl e | Inr v \<Rightarrow> f v)"

definition completes :: "pyexc + 'a \<Rightarrow> bool" where
  "completes m = (case m of Inl e \<Rightarrow> False | Inr v \<Rightarrow> True)"

text \<open>Truth value testing (\<^verbatim>\<open>if x:\<close>, \<^verbatim>\<open>not x\<close>, \<^verbatim>\<open>x and y\<close>, \<^verbatim>\<open>x or y\<close>).\<close>

fun truthy :: "pyval \<Rightarrow> bool" where
  "truthy PNone = False"
| "truthy (PBool b) = b"
| "truthy (PInt n) = (n \<noteq> 0)"
| "truthy (PFloat q) = (q \<noteq> 0)"
| "truthy (PStr s) = (s \<noteq> [])"
| "truthy (PList xs) = (xs \<noteq> [])"
| "truthy (PDict d) = (d \<noteq> [])"

text \<open>\<^verbatim>\<open>x or y\<close> and \<^verbatim>\<open>x and y\<close> return one of their operands.\<close>

definition py_or :: "pyval \<Rightarrow> pyval \<Rightarrow> pyval" where
  "py_or x y = (if truthy x then x else y)"

text \<open>\<^verbatim>\<open>d.get(k, dflt)\<close> on a dictionary, and on an arbitrary value, where every other type
  of value has no attribute \<^verbatim>\<open>get\<close>.\<close>

definition dict_get :: "(string \<times> pyval) list \<Rightarrow> string \<Rightarrow> pyval \<Rightarrow> pyval" where
  "dict_get d k dflt = (case map_of d k of None \<Rightarrow> dflt | Some v \<Rightarrow> v)"

fun py_get :: "pyval \<Rightarrow> string \<Rightarrow> pyval \<Rightarrow> pyexc + pyval" where
  "py_get (PDict d) k dflt = Inr (dict_get d k dflt)"
| "py_get v k dflt = Inl AttributeError"

text \<open>Numbers: \<^verbatim>\<open>bool\<close> is a subclass of \<^verbatim>\<open>int\<close>, and ints and floats compare by value.\<close>

fun num_of :: "pyval \<Rightarrow> rat option" where
  "num_of (PBool b) = Some (if b then 1 else 0)"
| "num_of (PInt n) = Some (of_int n)"
| "num_of (PFloat q) = Some q"
| "num_of v = None"

text \<open>\<^verbatim>\<open>v == n\<close> for an integer constant, \<^verbatim>\<open>v == s\<close> for a string constant: equality never
  raises.\<close>

definition eq_int :: "pyval \<Rightarrow> int \<Rightarrow> bool" where
  "eq_int v n = (case num_of v of None \<Rightarrow> False | Some q \<Rightarrow> q = of_int n)"

definition eq_str :: "pyval \<Rightarrow> string \<Rightarrow> bool" where
  "eq_str v s = (v = PStr s)"

text \<open>\<^verbatim>\<open>v < n\<close> and \<^verbatim>\<open>v > n\<close> for an integer constant: an ordering comparison of a value
  that is not a number with an int raises TypeError.\<close>

definition lt_int :: "pyval \<Rightarrow> int \<Rightarrow> pyexc + bool" where
  "lt_int v n = (case num_of v of None \<Rightarrow> Inl TypeError | Some q \<Rightarrow> Inr (q < of_int n))"

definition gt_int :: "pyval \<Rightarrow> int \<Rightarrow> pyexc + bool" where
  "gt_int v n = (case num_of v of None \<Rightarrow> Inl TypeError | Some q \<Rightarrow> Inr (q > of_int n))"

text \<open>\<^verbatim>\<open>len(v)\<close>: strings, lists and dictionaries have a length, nothing else has.\<close>

fun py_len :: "pyval \<Rightarrow> pyexc + nat" where
  "py_len (PStr s) = Inr (length s)"
| "py_len (PList xs) = Inr (length xs)"
| "py_len (PDict d) = Inr (length (remdups (map fst d)))"
| "py_len v = Inl TypeError"

text \<open>
  What the interpreter and the libraries do and this theory does not define is a
  parameter: the \<^verbatim>\<open>user_agents\<close> parser, and the float operations (the conversion of an
  int, which raises OverflowError beyond the range of a double and is \<open>None\<close> then, the
  conversion of a string, which raises ValueError on text that is no number and is
  \<open>None\<close> then, and the sum of a list of doubles as \<^verbatim>\<open>sum\<close> rounds it).
\<close>

record parsed_ua =
  browser :: string
  browser_version :: string
  os :: string
  os_version :: string
  device :: string
  is_mobile :: bool
  is_tablet :: bool
  is_pc :: bool
  is_bot :: bool

record externals =
  parse :: "string \<Rightarrow> parsed_ua"
  float_of_pyint :: "int \<Rightarrow> rat option"
  float_of_pystr :: "string \<Rightarrow> rat option"
  float_sum :: "rat list \<Rightarrow> rat"

text \<open>An int up to \<open>2^53\<close> in size is a double; a larger one is rounded, or too
  large.\<close>

definition int_to_float :: "externals \<Rightarrow> int \<Rightarrow> pyexc + rat" where
  "int_to_float E n =
     (if \<bar>n\<bar> \<le> 9007199254740992 then Inr (of_int n)
      else (case float_of_pyint E n of None \<Rightarrow> Inl OverflowError | Some q \<Rightarrow> Inr q))"

text \<open>\<^verbatim>\<open>float(v)\<close>.\<close>

fun py_float :: "externals \<Rightarrow> pyval \<Rightarrow> pyexc + rat" where
  "py_float E (PBool b) = Inr (if b then 1 else 0)"
| "py_float E (PInt n) = int_to_float E n"
| "py_float E (PFloat q) = Inr q"
| "py_float E (PStr s) =
     (case float_of_pystr E s of None \<Rightarrow> Inl ValueError | Some q \<Rightarrow> Inr q)"
| "py_float E v = Inl TypeError"

text \<open>
  \<^verbatim>\<open>sum(xs)\<close>: it starts from the int 0 and adds from the left. Booleans and ints add
  exactly. From the first float on the total is a float: the int total so far and every
  later int are made floats (OverflowError when one is too large), and the result is the
  interpreter's sum of these doubles. A value that is no number raises TypeError when
  its turn comes.
\<close>

fun float_sum_loop :: "externals \<Rightarrow> rat list \<Rightarrow> pyval list \<Rightarrow> pyexc + pyval" where
  "float_sum_loop E qs [] = Inr (PFloat (float_sum E qs))"
| "float_sum_loop E qs (x # xs) =
     (case x of
        PBool b \<Rightarrow> float_sum_loop E (qs @ [if b then 1 else 0]) xs
      | PInt m \<Rightarrow> bind_exc (int_to_float E m) (\<lambda>a. float_sum_loop E (qs @ [a]) xs)
      | PFloat q \<Rightarrow> float_sum_loop E (qs @ [q]) xs
      | _ \<Rightarrow> Inl TypeError)"

fun int_sum_loop :: "externals \<Rightarrow> int \<Rightarrow> pyval list \<Rightarrow> pyexc + pyval" where
  "int_sum_loop E n [] = Inr (PInt n)"
| "int_sum_loop E n (x # xs) =
     (case x of
        PBool b \<Rightarrow> int_sum_loop E (n + (if b then 1 else 0)) xs
      | PInt m \<Rightarrow> int_sum_loop E (n + m) xs
      | PFloat q \<Rightarrow> bind_exc (int_to_float E n) (\<lambda>a. float_sum_loop E [a, q] xs)
      | _ \<Rightarrow> Inl TypeError)"

definition py_sum :: "externals \<Rightarrow> pyval list \<Rightarrow> pyexc + pyval" where
  "py_sum E xs = int_sum_loop E 0 xs"

text \<open>\<^verbatim>\<open>v >= n\<close> for a number \<open>v\<close> and an integer constant.\<close>

definition ge_int :: "pyval \<Rightarrow> int \<Rightarrow> pyexc + bool" where
  "ge_int v n = (case num_of v of None \<Rightarrow> Inl TypeError | Some q \<Rightarrow> Inr (q \<ge> of_int n))"

section \<open>Strings\<close>

text \<open>\<^verbatim>\<open>s.lower()\<close> on code points below 256: the ASCII capitals and the Latin-1 capitals
  (\<open>0xC0\<close> to \<open>0xDE\<close> without \<open>0xD7\<close>) have a lower-case letter, 32 code points up.\<close>

definition latin1_upper :: "char list" where
  "latin1_upper =
     [CHR 0xC0, CHR 0xC1, CHR 0xC2, CHR 0xC3, CHR 0xC4, CHR 0xC5, CHR 0xC6, CHR 0xC7,
      CHR 0xC8, CHR 0xC9, CHR 0xCA, CHR 0xCB, CHR 0xCC, CHR 0xCD, CHR 0xCE, CHR 0xCF,
      CHR 0xD0, CHR 0xD1, CHR 0xD2, CHR 0xD3, CHR 0xD4, CHR 0xD5, CHR 0xD6, CHR 0xD8,
      CHR 0xD9, CHR 0xDA, CHR 0xDB, CHR 0xDC, CHR 0xDD, CHR 0xDE]"

definition latin1_lower :: "char list" where
  "latin1_lower =
     [CHR 0xE0, CHR 0xE1, CHR 0xE2, CHR 0xE3, CHR 0xE4, CHR 0xE5, CHR 0xE6, CHR 0xE7,
      CHR 0xE8, CHR 0xE9, CHR 0xEA, CHR 0xEB, CHR 0xEC, CHR 0xED, CHR 0xEE, CHR 0xEF,
      CHR 0xF0, CHR 0xF1, CHR 0xF2, CHR 0xF3, CHR 0xF4, CHR 0xF5, CHR 0xF6, CHR 0xF8,
      CHR 0xF9, CHR 0xFA, CHR 0xFB, CHR 0xFC, CHR 0xFD, CHR 0xFE]"

definition upper_lower :: "(char \<times> char) list" where
  "upper_lower =
     zip ''ABCDEFGHIJKLMNOPQRSTUVWXYZ'' ''abcdefghijklmnopqrstuvwxyz''
     @ zip latin1_upper latin1_lower"

definition lower_char :: "char \<Rightarrow> char" where
  "lower_char c = (case map_of upper_lower c of None \<Rightarrow> c | Some l \<Rightarrow> l)"

definition lower :: "string \<Rightarrow> string" where
  "lower s = map lower_char s"

text \<open>\<^verbatim>\<open>sub in s\<close> for strings: \<open>sub\<close> occurs in \<open>s\<close> as a contiguous run.\<close>

fun starts_with :: "string \<Rightarrow> string \<Rightarrow> bool" where
  "starts_with [] s = True"
| "starts_with (x # xs) [] = False"
| "starts_with (x # xs) (c # cs) = (x = c \<and> starts_with xs cs)"

fun str_in :: "string \<Rightarrow> string \<Rightarrow> bool" where
  "str_in sub [] = (sub = [])"
| "str_in sub (c # cs) = (starts_with sub (c # cs) \<or> str_in sub cs)"

text \<open>\<^verbatim>\<open>s.split(c)\<close> for a separator of one character: never the empty list.\<close>

fun split_on :: "char \<Rightarrow> string \<Rightarrow> string list" where
  "split_on c [] = [[]]"
| "split_on c (x # xs) =
     (if x = c then [] # split_on c xs
      else (case split_on c xs of
              [] \<Rightarrow> [[x]]
            | w # ws \<Rightarrow> (x # w) # ws))"

text \<open>\<^verbatim>\<open>s.strip()\<close>: whitespace is removed at both ends.\<close>

definition whitespace :: "char list" where
  "whitespace =
     [CHR 0x09, CHR 0x0A, CHR 0x0B, CHR 0x0C, CHR 0x0D, CHR 0x1C, CHR 0x1D, CHR 0x1E,
      CHR 0x1F, CHR 0x20, CHR 0x85, CHR 0xA0]"

definition py_isspace :: "char \<Rightarrow> bool" where
  "py_isspace c = (c \<in> set whitespace)"

definition strip :: "string \<Rightarrow> string" where
  "strip s = rev (dropWhile py_isspace (rev (dropWhile py_isspace s)))"

text \<open>\<^verbatim>\<open>s.count(c)\<close> for one character.\<close>

definition count_char :: "char \<Rightarrow> string \<Rightarrow> nat" where
  "count_char c s = length (filter (\<lambda>x. x = c) s)"

text \<open>\<^verbatim>\<open>dict(items)\<close>: a key keeps the place of its first insertion and the value of its
  last.\<close>

definition dict_of_items :: "('k \<times> 'v) list \<Rightarrow> ('k \<times> 'v) list" where
  "dict_of_items xs = foldl (\<lambda>d (k, v). AList.update k v d) [] xs"

section \<open>The request and the analyzer object\<close>

text \<open>
  \<open>req_headers\<close> are the items of \<^verbatim>\<open>request.headers\<close> in the order and with the names
  Werkzeug iterates them; \<^verbatim>\<open>request.headers.get(name)\<close> compares names without case.
  \<^verbatim>\<open>remote_addr\<close> can be \<^verbatim>\<open>None\<close>.
\<close>

record request =
  req_headers :: "(string \<times> string) list"
  remote_addr :: "string option"
  req_method :: string
  req_path :: string
  environ :: "(string \<times> string) list"
  is_secure :: bool

definition request_header :: "request \<Rightarrow> string \<Rightarrow> string option" where
  "request_header req name =
     map_of (map (\<lambda>(k, v). (lower k, v)) (req_headers req)) (lower name)"

text \<open>The attributes \<^verbatim>\<open>__init__\<close> sets; \<^verbatim>\<open>self.results\<close> is passed to the aggregator as its
  argument instead.\<close>

record visitor_analyzer =
  request :: request
  ip :: "string option"
  headers :: "(string \<times> string) list"
  user_agent :: string
  fingerprint :: pyval

text \<open>\<^verbatim>\<open>get_client_ip\<close>: a header that is present with an empty value is falsy.\<close>

definition get_client_ip :: "request \<Rightarrow> string option" where
  "get_client_ip req =
     (case request_header req ''X-Forwarded-For'' of
        Some xff \<Rightarrow>
          (if xff \<noteq> [] then Some (strip (hd (split_on CHR '','' xff)))
           else (case request_header req ''X-Real-IP'' of
                   Some rip \<Rightarrow> (if rip \<noteq> [] then Some rip else remote_addr req)
                 | None \<Rightarrow> remote_addr req))
      | None \<Rightarrow>
          (case request_header req ''X-Real-IP'' of
             Some rip \<Rightarrow> (if rip \<noteq> [] then Some rip else remote_addr req)
           | None \<Rightarrow> remote_addr req))"

definition init :: "request \<Rightarrow> visitor_analyzer" where
  "init req =
     \<lparr> request = req,
       ip = get_client_ip req,
       headers = dict_of_items (req_headers req),
       user_agent = (case request_header req ''User-Agent'' of None \<Rightarrow> [] | Some ua \<Rightarrow> ua),
       fingerprint = PDict [] \<rparr>"

text \<open>\<^verbatim>\<open>k in d\<close> and \<^verbatim>\<open>d.get(k, dflt)\<close> on the header dictionary.\<close>

definition has_key :: "('k \<times> 'v) list \<Rightarrow> 'k \<Rightarrow> bool" where
  "has_key d k = (map_of d k \<noteq> None)"

definition header_get :: "(string \<times> string) list \<Rightarrow> string \<Rightarrow> string \<Rightarrow> string" where
  "header_get d k dflt = (case map_of d k of None \<Rightarrow> dflt | Some v \<Rightarrow> v)"

section \<open>The evidence analyzers\<close>

text \<open>
  An indicator is the dictionary the source appends to its lists: the message and the
  \<^verbatim>\<open>property\<close> or \<^verbatim>\<open>header\<close> entry (empty when the source gives none). Its \<^verbatim>\<open>value\<close>
  entry, a display string made with \<^verbatim>\<open>str\<close> or an f-string, is read by nothing and is
  left out; where making it can raise (\<^verbatim>\<open>join\<close>), the model raises.
\<close>

record indicator =
  message :: string
  origin :: string

subsection \<open>\<^verbatim>\<open>analyze_basic_info\<close> (the timestamp is left out)\<close>

record basic_info =
  bi_ip_address :: "string option"
  bi_method :: string
  bi_path :: string
  bi_protocol :: string
  bi_port :: string
  bi_is_secure :: bool

definition analyze_basic_info :: "visitor_analyzer \<Rightarrow> basic_info" where
  "analyze_basic_info self =
     \<lparr> bi_ip_address = ip self,
       bi_method = req_method (request self),
       bi_path = req_path (request self),
       bi_protocol = header_get (environ (request self)) ''SERVER_PROTOCOL'' ''Unknown'',
       bi_port = header_get (environ (request self)) ''SERVER_PORT'' ''Unknown'',
       bi_is_secure = is_secure (request self) \<rparr>"

subsection \<open>\<^verbatim>\<open>analyze_headers\<close>\<close>

record header_analysis =
  total_headers :: nat
  suspicious_patterns :: "string list"
  missing_standard_headers :: "string list"
  proxy_headers :: "(string \<times> string) list"
  header_quality :: string

definition standard_headers :: "string list" where
  "standard_headers =
     [''User-Agent'', ''Accept'', ''Accept-Language'',
      ''Accept-Encoding'', ''Connection'', ''Upgrade-Insecure-Requests'']"

definition proxy_indicators :: "string list" where
  "proxy_indicators =
     [''X-Forwarded-For'', ''X-Real-IP'', ''Via'', ''X-Proxy-ID'', ''Forwarded'',
      ''CF-Connecting-IP'', ''X-Forwarded-Proto'']"

definition automation_headers :: "string list" where
  "automation_headers = [''Selenium'', ''PhantomJS'', ''Headless'', ''Python'', ''curl'', ''wget'']"

text \<open>The nested loop over the automation names and the header items: one pattern for
  every pair of a name and a header whose value holds the name, case ignored.\<close>

definition automation_signatures :: "(string \<times> string) list \<Rightarrow> string list" where
  "automation_signatures hs =
     concat (map (\<lambda>auto_header.
        map (\<lambda>item. ''Automation signature: '' @ auto_header)
          (filter (\<lambda>(header_name, header_value). str_in (lower auto_header) (lower header_value)) hs))
       automation_headers)"

definition analyze_headers :: "visitor_analyzer \<Rightarrow> header_analysis" where
  "analyze_headers self =
     (let hs = headers self;
          missing = filter (\<lambda>header. \<not> has_key hs header) standard_headers;
          proxy = filter (\<lambda>(k, v). v \<noteq> [])
                    (concat (map (\<lambda>k. case map_of hs k of None \<Rightarrow> [] | Some v \<Rightarrow> [(k, v)])
                       proxy_indicators));
          few = (if length hs < 5 then [''Too few headers (possible bot)''] else []);
          accept = header_get hs ''Accept'' [];
          acc = (if accept = ''*/*'' then [''Generic Accept header (typical of bots)'']
                 else if accept = [] then [''Missing Accept header'']
                 else []);
          lang = (if \<not> has_key hs ''Accept-Language''
                  then [''Missing Accept-Language header''] else []);
          suspicious = few @ acc @ lang @ automation_signatures hs;
          missing_count = length missing;
          suspicious_count = length suspicious
      in \<lparr> total_headers = length hs,
           suspicious_patterns = suspicious,
           missing_standard_headers = missing,
           proxy_headers = proxy,
           header_quality =
             (if suspicious_count > 2 \<or> missing_count > 3 then ''bad''
              else if suspicious_count > 0 \<or> missing_count > 1 then ''suspicious''
              else ''good'') \<rparr>)"

subsection \<open>\<^verbatim>\<open>analyze_user_agent\<close>\<close>

record ua_analysis =
  raw_user_agent :: string
  parsed :: "parsed_ua option"
  ua_suspicious_patterns :: "string list"
  ua_quality :: string

definition bot_keywords :: "string list" where
  "bot_keywords =
     [''bot'', ''crawler'', ''spider'', ''scraper'', ''curl'', ''wget'', ''python'',
      ''java'', ''php'', ''ruby'', ''go-http'', ''postman'', ''insomnia'']"

definition browser_tokens :: "string list" where
  "browser_tokens = [''mozilla'', ''chrome'', ''safari'', ''firefox'', ''edge'', ''opera'']"

definition analyze_user_agent :: "externals \<Rightarrow> visitor_analyzer \<Rightarrow> ua_analysis" where
  "analyze_user_agent E self =
     (if user_agent self = [] then
        \<lparr> raw_user_agent = user_agent self, parsed = None,
          ua_suspicious_patterns = [''Missing User-Agent''], ua_quality = ''bad'' \<rparr>
      else
        (let ua = parse E (user_agent self);
             ua_lower = lower (user_agent self);
             kw = map (\<lambda>keyword. ''Bot keyword detected: '' @ keyword)
                    (filter (\<lambda>keyword. str_in keyword ua_lower) bot_keywords);
             len = (if length (user_agent self) < 50 then [''User-Agent too short'']
                    else if length (user_agent self) > 500 then [''User-Agent abnormally long'']
                    else []);
             ident = (if \<not> list_ex (\<lambda>b. str_in b ua_lower) browser_tokens
                      then [''Missing common browser identifiers''] else []);
             version_count = count_char CHR ''/'' (user_agent self);
             vers = (if version_count > 10 then [''Excessive version strings''] else []);
             suspicious = kw @ len @ ident @ vers
         in \<lparr> raw_user_agent = user_agent self,
              parsed = Some ua,
              ua_suspicious_patterns = suspicious,
              ua_quality =
                (if is_bot ua \<or> length suspicious > 2 then ''bad''
                 else if length suspicious > 0 then ''suspicious''
                 else ''good'') \<rparr>))"

subsection \<open>\<^verbatim>\<open>analyze_browser_fingerprint\<close>\<close>

record fp_analysis =
  fingerprint_data :: pyval
  inconsistencies :: "indicator list"
  manipulation_indicators :: "indicator list"
  fp_quality :: string

definition add_inconsistency :: "string \<Rightarrow> string \<Rightarrow> fp_analysis \<Rightarrow> fp_analysis" where
  "add_inconsistency m p a =
     a\<lparr>inconsistencies := inconsistencies a @ [\<lparr>message = m, origin = p\<rparr>]\<rparr>"

definition add_manipulation :: "string \<Rightarrow> string \<Rightarrow> fp_analysis \<Rightarrow> fp_analysis" where
  "add_manipulation m p a =
     a\<lparr>manipulation_indicators := manipulation_indicators a @ [\<lparr>message = m, origin = p\<rparr>]\<rparr>"

text \<open>The checks in the source's order, each on the fingerprint dictionary \<open>d\<close> and the
  analysis so far.\<close>

definition check_webdriver :: "(string \<times> pyval) list \<Rightarrow> fp_analysis \<Rightarrow> fp_analysis" where
  "check_webdriver d a =
     (if truthy (dict_get d ''webdriver'' PNone)
      then add_manipulation ''WebDriver detected (Selenium/Automation)'' ''navigator.webdriver'' a
      else a)"

definition check_headless :: "(string \<times> pyval) list \<Rightarrow> fp_analysis \<Rightarrow> fp_analysis" where
  "check_headless d a =
     (if truthy (dict_get d ''headless'' PNone)
      then add_manipulation ''Headless browser detected'' ''headless'' a
      else a)"

definition check_plugins :: "(string \<times> pyval) list \<Rightarrow> fp_analysis \<Rightarrow> fp_analysis" where
  "check_plugins d a =
     (if eq_int (dict_get d ''plugins'' (PInt 0)) 0
      then add_inconsistency ''No browser plugins (unusual for real browsers)''
             ''navigator.plugins.length'' a
      else a)"

text \<open>\<^verbatim>\<open>not languages or len(languages) == 0\<close>: \<^verbatim>\<open>len\<close> is called on a truthy value only.\<close>

definition check_languages :: "(string \<times> pyval) list \<Rightarrow> fp_analysis \<Rightarrow> pyexc + fp_analysis" where
  "check_languages d a =
     (let languages = dict_get d ''languages'' (PList [])
      in bind_exc (if \<not> truthy languages then Inr True
                   else bind_exc (py_len languages) (\<lambda>n. Inr (n = 0)))
           (\<lambda>none. Inr (if none
                         then add_inconsistency ''No languages detected'' ''navigator.languages'' a
                         else a)))"

definition check_canvas :: "(string \<times> pyval) list \<Rightarrow> fp_analysis \<Rightarrow> fp_analysis" where
  "check_canvas d a =
     (let canvas_value = dict_get d ''canvas'' PNone
      in if eq_str canvas_value ''blocked'' \<or> \<not> truthy canvas_value
         then add_manipulation ''Canvas fingerprinting blocked or unavailable'' ''canvas'' a
         else a)"

definition check_webgl :: "(string \<times> pyval) list \<Rightarrow> fp_analysis \<Rightarrow> fp_analysis" where
  "check_webgl d a =
     (let webgl_vendor = dict_get d ''webgl_vendor'' PNone;
          webgl_renderer = dict_get d ''webgl_renderer'' PNone
      in if \<not> truthy webgl_vendor \<or> \<not> truthy webgl_renderer
         then add_inconsistency ''WebGL information missing'' ''webgl_vendor/renderer'' a
         else a)"

text \<open>\<^verbatim>\<open>screen_width < 800 or screen_height < 600\<close> is reached when neither equals 0; the
  height is compared only when the width is not below 800.\<close>

definition check_screen :: "(string \<times> pyval) list \<Rightarrow> fp_analysis \<Rightarrow> pyexc + fp_analysis" where
  "check_screen d a =
     (let screen_width = dict_get d ''screen_width'' (PInt 0);
          screen_height = dict_get d ''screen_height'' (PInt 0)
      in if eq_int screen_width 0 \<or> eq_int screen_height 0
         then Inr (add_inconsistency ''Invalid screen dimensions''
                     ''screen.width x screen.height'' a)
         else bind_exc (bind_exc (lt_int screen_width 800) (\<lambda>narrow.
                          if narrow then Inr True else lt_int screen_height 600))
                (\<lambda>small. Inr (if small
                               then add_inconsistency ''Unusual screen resolution (too small)''
                                      ''screen.width x screen.height'' a
                               else a)))"

definition check_timezone :: "(string \<times> pyval) list \<Rightarrow> fp_analysis \<Rightarrow> fp_analysis" where
  "check_timezone d a =
     (if \<not> truthy (dict_get d ''timezone'' PNone)
      then add_inconsistency ''Timezone not detected'' ''timezone'' a
      else a)"

definition automation_props :: "string list" where
  "automation_props =
     [''__nightmare'', ''__phantomas'', ''callPhantom'', ''_phantom'',
      ''__selenium'', ''__webdriver'', ''__driver'']"

definition check_artifacts :: "(string \<times> pyval) list \<Rightarrow> fp_analysis \<Rightarrow> fp_analysis" where
  "check_artifacts d a =
     foldl (\<lambda>a p. if truthy (dict_get d p PNone)
                   then add_manipulation ''Automation artifact detected'' (''window.'' @ p) a
                   else a)
       a automation_props"

definition determine_quality :: "fp_analysis \<Rightarrow> fp_analysis" where
  "determine_quality a =
     (let manipulation_count = length (manipulation_indicators a);
          inconsistency_count = length (inconsistencies a)
      in a\<lparr>fp_quality :=
             (if manipulation_count > 0 then ''bad''
              else if inconsistency_count > 3 then ''suspicious''
              else if inconsistency_count > 0 then ''acceptable''
              else ''good'')\<rparr>)"

text \<open>A falsy fingerprint returns at once; otherwise the first \<^verbatim>\<open>self.fingerprint.get\<close>
  raises AttributeError unless the fingerprint is a dictionary.\<close>

definition analyze_browser_fingerprint :: "visitor_analyzer \<Rightarrow> pyexc + fp_analysis" where
  "analyze_browser_fingerprint self =
     (let a0 = \<lparr> fingerprint_data = fingerprint self, inconsistencies = [],
                 manipulation_indicators = [], fp_quality = ''unknown'' \<rparr>
      in if \<not> truthy (fingerprint self)
         then Inr ((add_inconsistency ''No fingerprint data received'' [] a0)
                     \<lparr>fp_quality := ''bad''\<rparr>)
         else (case fingerprint self of
                 PDict d \<Rightarrow>
                   bind_exc (check_languages d (check_plugins d (check_headless d
                               (check_webdriver d a0)))) (\<lambda>a1.
                   bind_exc (check_screen d (check_webgl d (check_canvas d a1))) (\<lambda>a2.
                     Inr (determine_quality (check_artifacts d (check_timezone d a2)))))
               | _ \<Rightarrow> Inl AttributeError))"

subsection \<open>\<^verbatim>\<open>detect_proxy_vpn\<close>\<close>

record proxy_detection =
  px_indicators :: "indicator list"
  proxy_headers_found :: "string list"
  proxy_risk :: string
  is_proxy_likely :: bool

definition add_proxy_indicator :: "string \<Rightarrow> string \<Rightarrow> proxy_detection \<Rightarrow> proxy_detection" where
  "add_proxy_indicator m p det =
     det\<lparr>px_indicators := px_indicators det @ [\<lparr>message = m, origin = p\<rparr>]\<rparr>"

definition proxy_header_names :: "string list" where
  "proxy_header_names =
     [''X-Forwarded-For'', ''X-Real-IP'', ''Via'', ''Forwarded'',
      ''X-Proxy-ID'', ''CF-Connecting-IP'', ''X-Forwarded-Proto'']"

definition check_proxy_headers :: "visitor_analyzer \<Rightarrow> proxy_detection \<Rightarrow> proxy_detection" where
  "check_proxy_headers self det =
     foldl (\<lambda>det header.
              if has_key (headers self) header
              then add_proxy_indicator ''Proxy header present'' header
                     (det\<lparr>proxy_headers_found := proxy_headers_found det @ [header]\<rparr>)
              else det)
       det proxy_header_names"

definition check_forwarded_chain :: "visitor_analyzer \<Rightarrow> proxy_detection \<Rightarrow> proxy_detection" where
  "check_forwarded_chain self det =
     (let xff = header_get (headers self) ''X-Forwarded-For'' []
      in if CHR '','' \<in> set xff
         then (add_proxy_indicator ''Multiple IPs in proxy chain'' ''X-Forwarded-For'' det)
                \<lparr>is_proxy_likely := True\<rparr>
         else det)"

definition check_via :: "visitor_analyzer \<Rightarrow> proxy_detection \<Rightarrow> proxy_detection" where
  "check_via self det =
     (if has_key (headers self) ''Via''
      then (add_proxy_indicator ''Via header indicates explicit proxy'' ''Via'' det)
             \<lparr>is_proxy_likely := True\<rparr>
      else det)"

text \<open>\<^verbatim>\<open>ip_info.get\<close> is called on a truthy \<^verbatim>\<open>ip_info\<close> only, and raises AttributeError
  unless that is a dictionary.\<close>

definition check_ip_info :: "(string \<times> pyval) list \<Rightarrow> proxy_detection \<Rightarrow> pyexc + proxy_detection" where
  "check_ip_info d det =
     (if truthy (dict_get d ''ip_info'' PNone) then
        (case dict_get d ''ip_info'' PNone of
           PDict ip_info \<Rightarrow>
             (let flag = (\<lambda>k m det. if truthy (dict_get ip_info k PNone)
                                      then add_proxy_indicator m (''ip_info.'' @ k) det else det)
              in Inr (flag ''is_tor'' ''Tor exit node detected''
                       (flag ''is_proxy'' ''Proxy detected''
                         (flag ''is_vpn'' ''VPN detected''
                           (flag ''is_datacenter'' ''IP from datacenter (hosting provider)'' det)))))
         | _ \<Rightarrow> Inl AttributeError)
      else Inr det)"

text \<open>\<^verbatim>\<open>self.ip in webrtc_ips\<close>: membership in a list is by equality, in a string it is the
  substring test (TypeError when the address is \<^verbatim>\<open>None\<close>), in a dictionary it is a key.\<close>

definition ip_in :: "string option \<Rightarrow> pyval \<Rightarrow> pyexc + bool" where
  "ip_in addr v =
     (case v of
        PList xs \<Rightarrow> Inr ((case addr of None \<Rightarrow> PNone | Some a \<Rightarrow> PStr a) \<in> set xs)
      | PStr w \<Rightarrow> (case addr of None \<Rightarrow> Inl TypeError | Some a \<Rightarrow> Inr (str_in a w))
      | PDict ks \<Rightarrow> Inr (case addr of None \<Rightarrow> False | Some a \<Rightarrow> has_key ks a)
      | _ \<Rightarrow> Inl TypeError)"

text \<open>\<^verbatim>\<open>", ".join(webrtc_ips)\<close> raises TypeError on an item that is not a string; the
  items of a string are its characters and those of a dictionary its keys.\<close>

definition join_raises :: "pyval \<Rightarrow> bool" where
  "join_raises v =
     (case v of
        PList xs \<Rightarrow> list_ex (\<lambda>x. case x of PStr w \<Rightarrow> False | _ \<Rightarrow> True) xs
      | PStr w \<Rightarrow> False
      | PDict ks \<Rightarrow> False
      | _ \<Rightarrow> True)"

definition check_webrtc :: "visitor_analyzer \<Rightarrow> (string \<times> pyval) list \<Rightarrow> proxy_detection
    \<Rightarrow> pyexc + proxy_detection" where
  "check_webrtc self d det =
     (let webrtc_ips = dict_get d ''webrtc_ips'' (PList [])
      in if truthy webrtc_ips then
           bind_exc (py_len webrtc_ips) (\<lambda>n.
             if n > 0 then
               bind_exc (ip_in (ip self) webrtc_ips) (\<lambda>found.
                 if \<not> found then
                   (if join_raises webrtc_ips then Inl TypeError
                    else Inr (add_proxy_indicator
                                ''WebRTC IP mismatch (possible VPN/proxy leak)'' ''webrtc_ips'' det))
                 else Inr det)
             else Inr det)
         else Inr det)"

definition determine_proxy_risk :: "proxy_detection \<Rightarrow> proxy_detection" where
  "determine_proxy_risk det =
     (let indicator_count = length (px_indicators det)
      in det\<lparr>proxy_risk :=
               (if indicator_count > 3 \<or> is_proxy_likely det then ''high''
                else if indicator_count > 1 then ''medium''
                else if indicator_count > 0 then ''low''
                else ''none'')\<rparr>)"

definition detect_proxy_vpn :: "visitor_analyzer \<Rightarrow> pyexc + proxy_detection" where
  "detect_proxy_vpn self =
     (let det0 = \<lparr> px_indicators = [], proxy_headers_found = [],
                   proxy_risk = ''unknown'', is_proxy_likely = False \<rparr>;
          det1 = check_via self (check_forwarded_chain self (check_proxy_headers self det0))
      in case fingerprint self of
           PDict d \<Rightarrow>
             bind_exc (check_ip_info d det1) (\<lambda>det2.
             bind_exc (check_webrtc self d det2) (\<lambda>det3.
               Inr (determine_proxy_risk det3)))
         | _ \<Rightarrow> Inl AttributeError)"

subsection \<open>\<^verbatim>\<open>detect_automation\<close>\<close>

record automation_detection =
  au_indicators :: "indicator list"
  automation_type :: "string list"
  automation_confidence :: string

definition add_automation_indicator :: "string \<Rightarrow> string \<Rightarrow> automation_detection
    \<Rightarrow> automation_detection" where
  "add_automation_indicator m p det =
     det\<lparr>au_indicators := au_indicators det @ [\<lparr>message = m, origin = p\<rparr>]\<rparr>"

definition automation_checks :: "(string \<times> string) list" where
  "automation_checks =
     [(''__webdriver'', ''Selenium''),
      (''__driver'', ''WebDriver''),
      (''__selenium'', ''Selenium''),
      (''__nightmare'', ''Nightmare.js''),
      (''__phantomas'', ''PhantomJS''),
      (''callPhantom'', ''PhantomJS''),
      (''_phantom'', ''PhantomJS''),
      (''domAutomation'', ''Chrome Extension''),
      (''domAutomationController'', ''Chrome Automation'')]"

definition check_automation_props :: "(string \<times> pyval) list \<Rightarrow> automation_detection
    \<Rightarrow> automation_detection" where
  "check_automation_props d det =
     foldl (\<lambda>det (p, tool).
              if truthy (dict_get d p PNone)
              then (let det' = add_automation_indicator ''Automation property detected''
                                 (''window.'' @ p) det
                    in if tool \<notin> set (automation_type det')
                       then det'\<lparr>automation_type := automation_type det' @ [tool]\<rparr>
                       else det')
              else det)
       det automation_checks"

definition determine_confidence :: "automation_detection \<Rightarrow> automation_detection" where
  "determine_confidence det =
     (let indicator_count = length (au_indicators det)
      in det\<lparr>automation_confidence :=
               (if indicator_count > 3 then ''very_high''
                else if indicator_count > 1 then ''high''
                else if indicator_count > 0 then ''medium''
                else ''low'')\<rparr>)"

definition detect_automation :: "visitor_analyzer \<Rightarrow> pyexc + automation_detection" where
  "detect_automation self =
     (case fingerprint self of
        PDict d \<Rightarrow>
          (let det0 = \<lparr> au_indicators = [], automation_type = [], automation_confidence = ''unknown'' \<rparr>;
               det1 = (if truthy (dict_get d ''webdriver'' PNone)
                       then (add_automation_indicator ''Navigator.webdriver = true''
                               ''navigator.webdriver'' det0)
                              \<lparr>automation_type := [''Selenium/WebDriver'']\<rparr>
                       else det0);
               det2 = check_automation_props d det1;
               det3 = (if truthy (dict_get d ''chrome'' PNone)
                          \<and> \<not> truthy (dict_get d ''chrome_runtime'' PNone)
                       then add_automation_indicator ''Chrome detected but chrome.runtime missing''
                              ''window.chrome.runtime'' det2
                       else det2);
               det4 = (if truthy (dict_get d ''permissions_query_unavailable'' PNone)
                       then add_automation_indicator
                              ''Permissions API blocked (common in automation)''
                              ''navigator.permissions.query'' det3
                       else det3);
               det5 = (if eq_str (dict_get d ''notification_permission'' PNone) ''denied''
                       then add_automation_indicator ''Notifications denied (automation default)''
                              ''Notification.permission'' det4
                       else det4)
           in Inr (determine_confidence det5))
      | _ \<Rightarrow> Inl AttributeError)"

subsection \<open>\<^verbatim>\<open>check_consistency\<close>\<close>

text \<open>A check is its name and its status; the detail text is left out.\<close>

record consistency =
  checks :: "(string \<times> string) list"
  passed :: nat
  failed :: nat
  warnings :: nat

definition check_passed :: "string \<Rightarrow> consistency \<Rightarrow> consistency" where
  "check_passed name c = c\<lparr>checks := checks c @ [(name, ''passed'')], passed := passed c + 1\<rparr>"

definition check_failed :: "string \<Rightarrow> consistency \<Rightarrow> consistency" where
  "check_failed name c = c\<lparr>checks := checks c @ [(name, ''failed'')], failed := failed c + 1\<rparr>"

definition check_warning :: "string \<Rightarrow> consistency \<Rightarrow> consistency" where
  "check_warning name c = c\<lparr>checks := checks c @ [(name, ''warning'')], warnings := warnings c + 1\<rparr>"

text \<open>\<^verbatim>\<open>self.fingerprint['platform'].lower()\<close>: only a string has \<^verbatim>\<open>lower\<close>.\<close>

definition os_consistency :: "externals \<Rightarrow> visitor_analyzer \<Rightarrow> (string \<times> pyval) list
    \<Rightarrow> consistency \<Rightarrow> pyexc + consistency" where
  "os_consistency E self d c =
     (if truthy (dict_get d ''platform'' PNone) then
        (case dict_get d ''platform'' PNone of
           PStr platform \<Rightarrow>
             (let fp_platform = lower platform;
                  ua_os = lower (os (parse E (user_agent self)))
              in if str_in ''win'' fp_platform \<and> \<not> str_in ''windows'' ua_os
                 then Inr (check_failed ''OS Consistency'' c)
                 else if str_in ''mac'' fp_platform \<and> \<not> str_in ''mac'' ua_os
                 then Inr (check_failed ''OS Consistency'' c)
                 else Inr (check_passed ''OS Consistency'' c))
         | _ \<Rightarrow> Inl AttributeError)
      else Inr c)"

text \<open>\<^verbatim>\<open>fp_language.split('-')\<close> is reached when the declared language is truthy and the
  header is not empty; only a string has \<^verbatim>\<open>split\<close>.\<close>

definition language_consistency :: "visitor_analyzer \<Rightarrow> (string \<times> pyval) list
    \<Rightarrow> consistency \<Rightarrow> pyexc + consistency" where
  "language_consistency self d c =
     (let fp_language = dict_get d ''language'' (PStr []);
          header_language = header_get (headers self) ''Accept-Language'' []
      in if truthy fp_language \<and> header_language \<noteq> [] then
           (case fp_language of
              PStr l \<Rightarrow>
                (let fp_lang_code = lower (hd (split_on CHR ''-'' l))
                 in if \<not> str_in fp_lang_code (lower header_language)
                    then Inr (check_warning ''Language Consistency'' c)
                    else Inr (check_passed ''Language Consistency'' c))
            | _ \<Rightarrow> Inl AttributeError)
         else Inr c)"

text \<open>\<^verbatim>\<open>timezone_offset < -720 or timezone_offset > 840\<close> for an offset that is not
  \<^verbatim>\<open>None\<close>.\<close>

definition timezone_validation :: "(string \<times> pyval) list \<Rightarrow> consistency \<Rightarrow> pyexc + consistency" where
  "timezone_validation d c =
     (let timezone_offset = dict_get d ''timezone_offset'' PNone
      in if timezone_offset \<noteq> PNone then
           bind_exc (bind_exc (lt_int timezone_offset (- 720)) (\<lambda>low.
                       if low then Inr True else gt_int timezone_offset 840))
             (\<lambda>invalid. Inr (if invalid then check_failed ''Timezone Validation'' c
                              else check_passed ''Timezone Validation'' c))
         else Inr c)"

definition hardware_concurrency_check :: "(string \<times> pyval) list \<Rightarrow> consistency
    \<Rightarrow> pyexc + consistency" where
  "hardware_concurrency_check d c =
     (let hardware_concurrency = dict_get d ''hardware_concurrency'' (PInt 0)
      in if eq_int hardware_concurrency 0
         then Inr (check_failed ''Hardware Concurrency'' c)
         else bind_exc (gt_int hardware_concurrency 32) (\<lambda>many.
                Inr (if many then check_warning ''Hardware Concurrency'' c
                     else check_passed ''Hardware Concurrency'' c)))"

definition check_consistency :: "externals \<Rightarrow> visitor_analyzer \<Rightarrow> pyexc + consistency" where
  "check_consistency E self =
     (case fingerprint self of
        PDict d \<Rightarrow>
          bind_exc (os_consistency E self d
                      \<lparr> checks = [], passed = 0, failed = 0, warnings = 0 \<rparr>) (\<lambda>c1.
          bind_exc (language_consistency self d c1) (\<lambda>c2.
          bind_exc (timezone_validation d c2) (\<lambda>c3.
            hardware_concurrency_check d c3)))
      | _ \<Rightarrow> Inl AttributeError)"

subsection \<open>\<^verbatim>\<open>detect_threats\<close>\<close>

record threats =
  threat_level :: string
  threats_detected :: "string list"
  risk_factors :: "string list"

definition suspicious_paths :: "string list" where
  "suspicious_paths = [''admin'', ''wp-admin'', ''phpmyadmin'', ''.env'', ''config'', ''backup'']"

definition detect_threats :: "visitor_analyzer \<Rightarrow> threats" where
  "detect_threats self =
     (let detected =
            (if str_in ''sqlmap'' (lower (user_agent self))
             then [''SQL injection tool detected''] else [])
            @ (if str_in ''nikto'' (lower (user_agent self))
               then [''Nikto scanner detected''] else []);
          factors =
            (if list_ex (\<lambda>p. str_in p (lower (req_path (request self)))) suspicious_paths
             then [''Accessing suspicious path: '' @ req_path (request self)] else [])
            @ (if req_method (request self) \<notin> set [''GET'', ''POST'']
               then [''Unusual HTTP method: '' @ req_method (request self)] else [])
      in \<lparr> threat_level =
             (if length detected > 0 then ''critical''
              else if length factors > 2 then ''high''
              else if length factors > 0 then ''medium''
              else ''none''),
           threats_detected = detected,
           risk_factors = factors \<rparr>)"

subsection \<open>\<^verbatim>\<open>analyze_tls\<close>\<close>

record tls_analysis =
  tls_protocol :: string
  tls_is_secure :: bool
  cipher_suite :: string
  tls_version :: string
  tls_client_fingerprint :: "pyval option"

definition analyze_tls :: "visitor_analyzer \<Rightarrow> pyexc + tls_analysis" where
  "analyze_tls self =
     (case fingerprint self of
        PDict d \<Rightarrow>
          Inr \<lparr> tls_protocol = header_get (environ (request self)) ''SERVER_PROTOCOL'' ''Unknown'',
                tls_is_secure = is_secure (request self),
                cipher_suite = header_get (environ (request self)) ''SSL_CIPHER'' ''Unknown'',
                tls_version = header_get (environ (request self)) ''SSL_PROTOCOL'' ''Unknown'',
                tls_client_fingerprint =
                  (if truthy (dict_get d ''tls_fingerprint'' PNone)
                   then Some (dict_get d ''tls_fingerprint'' PNone) else None) \<rparr>
      | _ \<Rightarrow> Inl AttributeError)"

subsection \<open>\<^verbatim>\<open>analyze_behavioral_signals\<close>\<close>

record behavioral_signals =
  mouse_movement :: pyval
  keyboard_input :: pyval
  touch_support :: pyval
  page_focus :: pyval
  bs_scroll_behavior :: pyval
  behavioral_score :: string

text \<open>The page focus defaults to \<^verbatim>\<open>True\<close>, the other signals to \<^verbatim>\<open>False\<close>; \<^verbatim>\<open>sum\<close> raises
  on a signal that is no number.\<close>

definition analyze_behavioral_signals :: "externals \<Rightarrow> visitor_analyzer
    \<Rightarrow> pyexc + behavioral_signals" where
  "analyze_behavioral_signals E self =
     (case fingerprint self of
        PDict d \<Rightarrow>
          (let mm = dict_get d ''has_mouse_movement'' (PBool False);
               ki = dict_get d ''has_keyboard_input'' (PBool False);
               ts = dict_get d ''touch_support'' (PBool False);
               pf = dict_get d ''has_page_focus'' (PBool True);
               sb = dict_get d ''has_scroll'' (PBool False)
           in bind_exc (py_sum E [mm, ki, pf, sb]) (\<lambda>positive_signals.
              bind_exc (ge_int positive_signals 3) (\<lambda>three.
              bind_exc (ge_int positive_signals 2) (\<lambda>two.
                Inr \<lparr> mouse_movement = mm, keyboard_input = ki, touch_support = ts,
                      page_focus = pf, bs_scroll_behavior = sb,
                      behavioral_score =
                        (if three then ''human_likely''
                         else if two then ''uncertain''
                         else ''bot_likely'') \<rparr>))))
      | _ \<Rightarrow> Inl AttributeError)"

subsection \<open>\<^verbatim>\<open>analyze_advanced_behavioral\<close>\<close>

record mouse_info =
  total_movements :: pyval
  mouse_average_velocity :: rat
  max_velocity :: rat
  average_acceleration :: rat
  has_human_curves :: pyval
  mouse_quality :: string
  mouse_bot_indicator :: "string option"

record click_info =
  total_clicks :: pyval
  average_interval :: rat
  rhythm_variance :: rat
  click_quality :: string
  click_bot_indicator :: "string option"

record scroll_info =
  total_scrolls :: pyval
  scroll_average_velocity :: rat
  has_scrolled :: pyval

record keyboard_info =
  average_dwell_time :: rat
  average_flight_time :: rat
  typing_rhythm :: rat
  keyboard_quality :: string

text \<open>Each behaviour entry stays the empty dictionary (\<open>None\<close> here) when the payload's
  entry is falsy.\<close>

record advanced_behavioral =
  mouse_behavior :: "mouse_info option"
  click_behavior :: "click_info option"
  scroll_behavior :: "scroll_info option"
  keyboard_behavior :: "keyboard_info option"
  human_likelihood :: string

text \<open>\<^verbatim>\<open>data.get(k, 0)\<close> on a behaviour entry, which must be a dictionary, and \<^verbatim>\<open>float\<close> of
  it.\<close>

definition float_field :: "externals \<Rightarrow> pyval \<Rightarrow> string \<Rightarrow> pyexc + rat" where
  "float_field E v k = bind_exc (py_get v k (PInt 0)) (py_float E)"

definition analyze_mouse :: "externals \<Rightarrow> pyval \<Rightarrow> pyexc + mouse_info option" where
  "analyze_mouse E mouse_data =
     (if truthy mouse_data then
        bind_exc (py_get mouse_data ''total_movements'' (PInt 0)) (\<lambda>tm.
        bind_exc (float_field E mouse_data ''average_velocity'') (\<lambda>av.
        bind_exc (float_field E mouse_data ''max_velocity'') (\<lambda>mv.
        bind_exc (float_field E mouse_data ''average_acceleration'') (\<lambda>aa.
        bind_exc (py_get mouse_data ''has_human_curves'' (PBool False)) (\<lambda>hc.
          Inr (Some \<lparr> total_movements = tm, mouse_average_velocity = av, max_velocity = mv,
                      average_acceleration = aa, has_human_curves = hc,
                      mouse_quality = (if truthy hc then ''good'' else ''suspicious''),
                      mouse_bot_indicator =
                        (if av > 3000 then Some ''Abnormally high velocity''
                         else if av = 0 then Some ''No mouse movement''
                         else None) \<rparr>))))))
      else Inr None)"

definition analyze_click :: "externals \<Rightarrow> pyval \<Rightarrow> pyexc + click_info option" where
  "analyze_click E click_data =
     (if truthy click_data then
        bind_exc (py_get click_data ''total_clicks'' (PInt 0)) (\<lambda>tc.
        bind_exc (float_field E click_data ''average_click_interval'') (\<lambda>ai.
        bind_exc (float_field E click_data ''click_rhythm_variance'') (\<lambda>rv.
          Inr (Some \<lparr> total_clicks = tc, average_interval = ai, rhythm_variance = rv,
                      click_quality = (if rv > 100 then ''good'' else ''suspicious''),
                      click_bot_indicator =
                        (if rv < 50 then Some ''Too consistent (bot-like)'' else None) \<rparr>))))
      else Inr None)"

definition analyze_scroll :: "externals \<Rightarrow> pyval \<Rightarrow> pyexc + scroll_info option" where
  "analyze_scroll E scroll_data =
     (if truthy scroll_data then
        bind_exc (py_get scroll_data ''total_scrolls'' (PInt 0)) (\<lambda>ts.
        bind_exc (float_field E scroll_data ''average_scroll_velocity'') (\<lambda>av.
        bind_exc (py_get scroll_data ''has_scrolled'' (PBool False)) (\<lambda>hs.
          Inr (Some \<lparr> total_scrolls = ts, scroll_average_velocity = av, has_scrolled = hs \<rparr>))))
      else Inr None)"

definition analyze_keyboard :: "externals \<Rightarrow> pyval \<Rightarrow> pyexc + keyboard_info option" where
  "analyze_keyboard E keyboard_data =
     (if truthy keyboard_data then
        bind_exc (float_field E keyboard_data ''average_dwell_time'') (\<lambda>dt.
        bind_exc (float_field E keyboard_data ''average_flight_time'') (\<lambda>ft.
        bind_exc (float_field E keyboard_data ''typing_rhythm'') (\<lambda>tr.
          Inr (Some \<lparr> average_dwell_time = dt, average_flight_time = ft, typing_rhythm = tr,
                      keyboard_quality = (if tr > 0 then ''good'' else ''unknown'') \<rparr>))))
      else Inr None)"

text \<open>The vote: human curves count 2 for, a mouse or click bot indicator 2 against each,
  a click rhythm variance above 100 counts 1 for.\<close>

definition calculate_likelihood :: "mouse_info option \<Rightarrow> click_info option \<Rightarrow> string" where
  "calculate_likelihood mouse click =
     (let human_indicators =
            (if (case mouse of None \<Rightarrow> False | Some m \<Rightarrow> truthy (has_human_curves m))
             then 2 else 0)
            + (if (case click of None \<Rightarrow> False | Some c \<Rightarrow> rhythm_variance c > 100)
               then 1 else (0::nat));
          bot_indicators =
            (if (case mouse of None \<Rightarrow> False | Some m \<Rightarrow> mouse_bot_indicator m \<noteq> None)
             then 2 else 0)
            + (if (case click of None \<Rightarrow> False | Some c \<Rightarrow> click_bot_indicator c \<noteq> None)
               then 2 else (0::nat))
      in if human_indicators > bot_indicators then ''high''
         else if bot_indicators > human_indicators then ''low''
         else ''medium'')"

definition analyze_advanced_behavioral :: "externals \<Rightarrow> visitor_analyzer
    \<Rightarrow> pyexc + advanced_behavioral" where
  "analyze_advanced_behavioral E self =
     (case fingerprint self of
        PDict d \<Rightarrow>
          bind_exc (analyze_mouse E (dict_get d ''mouse_behavior'' (PDict []))) (\<lambda>mouse.
          bind_exc (analyze_click E (dict_get d ''click_behavior'' (PDict []))) (\<lambda>click.
          bind_exc (analyze_scroll E (dict_get d ''scroll_behavior'' (PDict []))) (\<lambda>scroll.
          bind_exc (analyze_keyboard E (dict_get d ''keyboard_behavior'' (PDict []))) (\<lambda>keyboard.
            Inr \<lparr> mouse_behavior = mouse, click_behavior = click,
                  scroll_behavior = scroll, keyboard_behavior = keyboard,
                  human_likelihood = calculate_likelihood mouse click \<rparr>))))
      | _ \<Rightarrow> Inl AttributeError)"

subsection \<open>\<^verbatim>\<open>analyze_vm_detection\<close>\<close>

record vm_detection =
  vm_likelihood :: pyval
  vm_indicators :: pyval
  total_indicators :: nat
  is_likely_vm :: bool

text \<open>\<^verbatim>\<open>vm_data.get\<close> is called whatever \<^verbatim>\<open>vm_data\<close> is, so only a dictionary passes; the
  indicators counted are the entries equal to \<^verbatim>\<open>True\<close>, which the number 1 is too.\<close>

definition analyze_vm_detection :: "visitor_analyzer \<Rightarrow> pyexc + vm_detection" where
  "analyze_vm_detection self =
     bind_exc (py_get (fingerprint self) ''vm_detection'' (PDict [])) (\<lambda>vm_data.
       (case vm_data of
          PDict vd \<Rightarrow>
            Inr \<lparr> vm_likelihood = dict_get vd ''vm_likelihood'' (PStr ''unknown''),
                  vm_indicators = vm_data,
                  total_indicators =
                    length (filter (\<lambda>k. eq_int (dict_get vd k PNone) 1) (remdups (map fst vd))),
                  is_likely_vm =
                    (if truthy vm_data
                     then dict_get vd ''vm_likelihood'' PNone \<in> set [PStr ''high'', PStr ''medium'']
                     else False) \<rparr>
        | _ \<Rightarrow> Inl AttributeError))"

subsection \<open>\<^verbatim>\<open>analyze_extensions\<close>\<close>

record browser_extensions =
  total_detected :: pyval
  adblock_detected :: pyval
  devtools_detected :: pyval
  extensions :: pyval
  privacy_concerned :: pyval

definition analyze_extensions :: "visitor_analyzer \<Rightarrow> pyexc + browser_extensions" where
  "analyze_extensions self =
     bind_exc (py_get (fingerprint self) ''browser_extensions'' (PDict [])) (\<lambda>ext_data.
       (case ext_data of
          PDict ed \<Rightarrow>
            Inr \<lparr> total_detected = dict_get ed ''total_detected'' (PInt 0),
                  adblock_detected = dict_get ed ''adblock_detected'' (PBool False),
                  devtools_detected = py_or (dict_get ed ''react_devtools'' (PBool False))
                                        (dict_get ed ''vue_devtools'' (PBool False)),
                  extensions = ext_data,
                  privacy_concerned = py_or (dict_get ed ''adblock_detected'' (PBool False))
                                        (dict_get ed ''privacy_badger'' (PBool False)) \<rparr>
        | _ \<Rightarrow> Inl AttributeError))"

subsection \<open>\<^verbatim>\<open>analyze_timing\<close>\<close>

record timing_analysis =
  page_load_time :: pyval
  time_to_first_interaction :: pyval
  time_to_first_click :: pyval
  time_to_first_scroll :: pyval
  suspicion_level :: string
  reason :: "string option"

text \<open>\<^verbatim>\<open>t.get(k) and t[k] < n\<close>: the comparison is made for a truthy entry only, so an
  entry that is 0 is never below \<open>n\<close> here.\<close>

definition present_and_below :: "(string \<times> pyval) list \<Rightarrow> string \<Rightarrow> int \<Rightarrow> pyexc + bool" where
  "present_and_below td k n =
     (if truthy (dict_get td k PNone) then lt_int (dict_get td k PNone) n else Inr False)"

definition analyze_timing :: "visitor_analyzer \<Rightarrow> pyexc + timing_analysis" where
  "analyze_timing self =
     bind_exc (py_get (fingerprint self) ''advanced_timing'' (PDict [])) (\<lambda>timing_data.
       (case timing_data of
          PDict td \<Rightarrow>
            (let analysis =
                   \<lparr> page_load_time = dict_get td ''page_load_time'' (PInt 0),
                     time_to_first_interaction = dict_get td ''time_to_first_interaction'' PNone,
                     time_to_first_click = dict_get td ''time_to_first_click'' PNone,
                     time_to_first_scroll = dict_get td ''time_to_first_scroll'' PNone,
                     suspicion_level = ''none'',
                     reason = None \<rparr>
             in bind_exc (present_and_below td ''time_to_first_click'' 100) (\<lambda>fast_click.
                  if fast_click
                  then Inr (analysis\<lparr>suspicion_level := ''high'',
                                      reason := Some ''Clicked too fast (< 100ms)''\<rparr>)
                  else bind_exc (present_and_below td ''time_to_first_interaction'' 50)
                         (\<lambda>fast. Inr (if fast
                                       then analysis\<lparr>suspicion_level := ''high'',
                                                      reason := Some ''Interacted too fast''\<rparr>
                                       else analysis))))
        | _ \<Rightarrow> Inl AttributeError))"

subsection \<open>\<^verbatim>\<open>analyze_css_media\<close>, \<^verbatim>\<open>analyze_speech\<close>, \<^verbatim>\<open>analyze_client_hints\<close>\<close>

record css_media =
  total_features :: pyval
  pointer_type :: string
  hover_capable :: pyval
  color_gamut :: string
  prefers_dark_mode :: pyval
  reduced_motion :: pyval
  features :: pyval

definition analyze_css_media :: "visitor_analyzer \<Rightarrow> pyexc + css_media" where
  "analyze_css_media self =
     (case fingerprint self of
        PDict d \<Rightarrow>
          (case dict_get d ''css_media_queries'' (PDict []) of
             PDict cd \<Rightarrow>
               Inr \<lparr> total_features =
                       (if has_key d ''css_media_queries_count''
                        then dict_get cd ''css_media_queries_count'' (PInt 0) else PInt 0),
                     pointer_type =
                       (if truthy (dict_get cd ''pointer_fine'' PNone) then ''fine''
                        else if truthy (dict_get cd ''pointer_coarse'' PNone) then ''coarse''
                        else ''none''),
                     hover_capable = dict_get cd ''hover_hover'' (PBool False),
                     color_gamut =
                       (if truthy (dict_get cd ''color_gamut_p3'' PNone) then ''p3''
                        else if truthy (dict_get cd ''color_gamut_srgb'' PNone) then ''srgb''
                        else ''unknown''),
                     prefers_dark_mode = dict_get cd ''prefers_color_scheme_dark'' (PBool False),
                     reduced_motion = dict_get cd ''prefers_reduced_motion'' (PBool False),
                     features = PDict cd \<rparr>
           | _ \<Rightarrow> Inl AttributeError)
      | _ \<Rightarrow> Inl AttributeError)"

text \<open>The speech and client-hint results are \<^verbatim>\<open>{'supported': False}\<close> (\<open>None\<close> here) or the
  full dictionary.\<close>

record speech_info =
  voices_count :: pyval
  voice_hash :: pyval
  has_voices :: bool
  uniqueness :: string

definition analyze_speech :: "visitor_analyzer \<Rightarrow> pyexc + speech_info option" where
  "analyze_speech self =
     (case fingerprint self of
        PDict d \<Rightarrow>
          (if \<not> truthy (dict_get d ''speech_synthesis_support'' (PBool False)) then Inr None
           else
             bind_exc (gt_int (dict_get d ''speech_voices_count'' (PInt 0)) 0) (\<lambda>some.
             bind_exc (gt_int (dict_get d ''speech_voices_count'' (PInt 0)) 10) (\<lambda>many.
               Inr (Some \<lparr> voices_count = dict_get d ''speech_voices_count'' (PInt 0),
                           voice_hash = dict_get d ''speech_voice_hash'' (PStr []),
                           has_voices = some,
                           uniqueness = (if many then ''high'' else ''low'') \<rparr>))))
      | _ \<Rightarrow> Inl AttributeError)"

record hints_info =
  mobile :: pyval
  hints_platform :: pyval
  brands :: pyval
  high_entropy :: pyval
  architecture :: pyval
  bitness :: pyval

definition analyze_client_hints :: "visitor_analyzer \<Rightarrow> pyexc + hints_info option" where
  "analyze_client_hints self =
     (case fingerprint self of
        PDict d \<Rightarrow>
          (let hints = dict_get d ''client_hints'' (PDict []);
               entropy = dict_get d ''client_hints_high_entropy'' (PDict [])
           in if \<not> truthy hints then Inr None
              else
                bind_exc (py_get hints ''mobile'' (PBool False)) (\<lambda>mob.
                bind_exc (py_get hints ''platform'' (PStr ''unknown'')) (\<lambda>plat.
                bind_exc (py_get hints ''brands'' (PList [])) (\<lambda>br.
                bind_exc (py_get entropy ''architecture'' PNone) (\<lambda>arch.
                bind_exc (py_get entropy ''bitness'' PNone) (\<lambda>bits.
                  Inr (Some \<lparr> mobile = mob, hints_platform = plat, brands = br,
                              high_entropy = entropy, architecture = arch,
                              bitness = bits \<rparr>)))))))
      | _ \<Rightarrow> Inl AttributeError)"

section \<open>The risk aggregator\<close>

text \<open>\<^verbatim>\<open>self.results\<close> as \<^verbatim>\<open>analyze\<close> fills it, without the timestamp.\<close>

record results =
  ip_address :: "string option"
  basic_info :: basic_info
  header_analysis :: header_analysis
  user_agent_analysis :: ua_analysis
  browser_fingerprint :: fp_analysis
  proxy_vpn_detection :: proxy_detection
  automation_detection :: automation_detection
  consistency_checks :: consistency
  threat_indicators :: threats
  tls_analysis :: tls_analysis
  behavioral_signals :: behavioral_signals
  advanced_behavioral :: advanced_behavioral
  vm_detection :: vm_detection
  browser_extensions :: browser_extensions
  timing_analysis :: timing_analysis
  css_media_queries :: css_media
  speech_synthesis :: "speech_info option"
  client_hints :: "hints_info option"

record risk =
  total_score :: int
  max_score :: int
  risk_level :: string
  visitor_quality :: string
  is_genuine :: bool
  confidence :: int
  red_flags :: "string list"
  green_flags :: "string list"

definition add_score :: "int \<Rightarrow> risk \<Rightarrow> risk" where
  "add_score n r = r\<lparr>total_score := total_score r + n\<rparr>"

definition red_flag :: "string \<Rightarrow> risk \<Rightarrow> risk" where
  "red_flag f r = r\<lparr>red_flags := red_flags r @ [f]\<rparr>"

definition green_flag :: "string \<Rightarrow> risk \<Rightarrow> risk" where
  "green_flag f r = r\<lparr>green_flags := green_flags r @ [f]\<rparr>"

text \<open>The scoring blocks of \<^verbatim>\<open>calculate_risk_score\<close>, in the source's order.\<close>

definition score_header_quality :: "string \<Rightarrow> risk \<Rightarrow> risk" where
  "score_header_quality hq r =
     (if hq = ''bad'' then red_flag ''Poor header quality'' (add_score 25 r)
      else if hq = ''suspicious'' then red_flag ''Suspicious headers'' (add_score 15 r)
      else green_flag ''Good header quality'' r)"

definition score_ua_quality :: "string \<Rightarrow> risk \<Rightarrow> risk" where
  "score_ua_quality uq r =
     (if uq = ''bad'' then red_flag ''Bad User-Agent'' (add_score 20 r)
      else if uq = ''suspicious'' then red_flag ''Suspicious User-Agent'' (add_score 10 r)
      else green_flag ''Valid User-Agent'' r)"

definition score_fp_quality :: "string \<Rightarrow> risk \<Rightarrow> risk" where
  "score_fp_quality fq r =
     (if fq = ''bad''
      then (red_flag ''Manipulated fingerprint'' (add_score 30 r))\<lparr>is_genuine := False\<rparr>
      else if fq = ''suspicious''
      then red_flag ''Suspicious fingerprint'' (add_score 15 r)
      else green_flag ''Natural fingerprint'' r)"

definition score_proxy_risk :: "string \<Rightarrow> risk \<Rightarrow> risk" where
  "score_proxy_risk pr r =
     (if pr = ''high'' then red_flag ''Proxy/VPN detected'' (add_score 20 r)
      else if pr = ''medium'' then red_flag ''Possible proxy/VPN'' (add_score 10 r)
      else r)"

definition score_automation :: "string \<Rightarrow> risk \<Rightarrow> risk" where
  "score_automation ac r =
     (if ac \<in> set [''very_high'', ''high'']
      then (red_flag ''Automation detected'' (add_score 25 r))\<lparr>is_genuine := False\<rparr>
      else if ac = ''medium''
      then red_flag ''Possible automation'' (add_score 10 r)
      else r)"

definition score_consistency :: "consistency \<Rightarrow> risk \<Rightarrow> risk" where
  "score_consistency consistency r =
     (if failed consistency > 2
      then red_flag ''Multiple consistency failures'' (add_score 15 r)
      else if failed consistency > 0 then add_score 5 r
      else r)"

definition score_threat :: "string \<Rightarrow> risk \<Rightarrow> risk" where
  "score_threat lvl r =
     (if lvl = ''critical''
      then (red_flag ''Critical threat detected'' (add_score 50 r))\<lparr>is_genuine := False\<rparr>
      else if lvl = ''high'' then red_flag ''High threat level'' (add_score 30 r)
      else r)"

definition score_likelihood :: "string \<Rightarrow> risk \<Rightarrow> risk" where
  "score_likelihood hl r =
     (if hl = ''low'' then red_flag ''Bot-like behavior patterns'' (add_score 20 r)
      else if hl = ''high'' then green_flag ''Human-like behavior patterns'' r
      else r)"

text \<open>\<^verbatim>\<open>mouse_behavior.get('bot_indicator')\<close> is truthy when the entry exists and is not
  empty.\<close>

definition score_mouse :: "mouse_info option \<Rightarrow> risk \<Rightarrow> risk" where
  "score_mouse mb r =
     (case (case mb of None \<Rightarrow> None | Some m \<Rightarrow> mouse_bot_indicator m) of
        Some b \<Rightarrow>
          (if b \<noteq> [] then red_flag (''Mouse: '' @ b) (add_score 10 r)
           else if (case mb of None \<Rightarrow> False | Some m \<Rightarrow> truthy (has_human_curves m))
           then green_flag ''Natural mouse movement curves'' r
           else r)
      | None \<Rightarrow>
          (if (case mb of None \<Rightarrow> False | Some m \<Rightarrow> truthy (has_human_curves m))
           then green_flag ''Natural mouse movement curves'' r
           else r))"

definition score_click :: "click_info option \<Rightarrow> risk \<Rightarrow> risk" where
  "score_click cb r =
     (case (case cb of None \<Rightarrow> None | Some c \<Rightarrow> click_bot_indicator c) of
        Some b \<Rightarrow> (if b \<noteq> [] then red_flag (''Click: '' @ b) (add_score 10 r) else r)
      | None \<Rightarrow> r)"

definition score_vm :: "vm_detection \<Rightarrow> risk \<Rightarrow> risk" where
  "score_vm vm r =
     (if is_likely_vm vm then red_flag ''Running in virtual machine'' (add_score 15 r) else r)"

definition score_timing :: "timing_analysis \<Rightarrow> risk \<Rightarrow> risk" where
  "score_timing timing r =
     (if suspicion_level timing = ''high''
      then red_flag (''Timing: '' @ (case reason timing of None \<Rightarrow> ''Too fast'' | Some t \<Rightarrow> t))
             (add_score 15 r)
      else r)"

definition score_extensions :: "browser_extensions \<Rightarrow> risk \<Rightarrow> risk" where
  "score_extensions ext r =
     (if truthy (privacy_concerned ext)
      then green_flag ''Privacy-aware (ad blocker detected)'' r
      else r)"

definition cap_score :: "risk \<Rightarrow> risk" where
  "cap_score r = r\<lparr>total_score := min (total_score r) 100\<rparr>"

definition determine_risk_level :: "risk \<Rightarrow> risk" where
  "determine_risk_level r =
     (if total_score r \<ge> 70 then r\<lparr>risk_level := ''critical'', visitor_quality := ''bad''\<rparr>
      else if total_score r \<ge> 50 then r\<lparr>risk_level := ''high'', visitor_quality := ''bad''\<rparr>
      else if total_score r \<ge> 30
      then r\<lparr>risk_level := ''medium'', visitor_quality := ''suspicious''\<rparr>
      else if total_score r \<ge> 15
      then r\<lparr>risk_level := ''low'', visitor_quality := ''acceptable''\<rparr>
      else r\<lparr>risk_level := ''minimal'', visitor_quality := ''good''\<rparr>)"

definition calculate_confidence :: "risk \<Rightarrow> risk" where
  "calculate_confidence r =
     r\<lparr>confidence := min 100 (total_score r + int (length (red_flags r)) * 5)\<rparr>"

definition initial_risk :: risk where
  "initial_risk =
     \<lparr> total_score = 0, max_score = 100, risk_level = ''unknown'',
       visitor_quality = ''unknown'', is_genuine = True, confidence = 0,
       red_flags = [], green_flags = [] \<rparr>"

text \<open>The scoring blocks applied one after the other, before the cap.\<close>

definition score_findings :: "'a results_scheme \<Rightarrow> risk" where
  "score_findings res =
     (let r1 = score_header_quality (header_quality (header_analysis res)) initial_risk;
          r2 = score_ua_quality (ua_quality (user_agent_analysis res)) r1;
          r3 = score_fp_quality (fp_quality (browser_fingerprint res)) r2;
          r4 = score_proxy_risk (proxy_risk (proxy_vpn_detection res)) r3;
          r5 = score_automation (automation_confidence (automation_detection res)) r4;
          r6 = score_consistency (consistency_checks res) r5;
          r7 = score_threat (threat_level (threat_indicators res)) r6;
          r8 = score_likelihood (human_likelihood (advanced_behavioral res)) r7;
          r9 = score_mouse (mouse_behavior (advanced_behavioral res)) r8;
          r10 = score_click (click_behavior (advanced_behavioral res)) r9;
          r11 = score_vm (vm_detection res) r10;
          r12 = score_timing (timing_analysis res) r11
      in score_extensions (browser_extensions res) r12)"

definition calculate_risk_score :: "'a results_scheme \<Rightarrow> risk" where
  "calculate_risk_score res =
     calculate_confidence (determine_risk_level (cap_score (score_findings res)))"

section \<open>The pipeline\<close>

record full_results = results +
  risk_assessment :: risk

text \<open>\<^verbatim>\<open>analyze\<close>: a falsy client fingerprint becomes the empty dictionary; the analyzers run
  in the order of the dictionary display, and the first exception ends the analysis.\<close>

definition analyze :: "externals \<Rightarrow> visitor_analyzer \<Rightarrow> pyval \<Rightarrow> pyexc + full_results" where
  "analyze E self0 client_fingerprint =
     (let self = self0\<lparr>fingerprint :=
                         (if truthy client_fingerprint then client_fingerprint else PDict [])\<rparr>
      in bind_exc (analyze_browser_fingerprint self) (\<lambda>fp.
         bind_exc (detect_proxy_vpn self) (\<lambda>px.
         bind_exc (detect_automation self) (\<lambda>au.
         bind_exc (check_consistency E self) (\<lambda>cc.
         bind_exc (analyze_tls self) (\<lambda>tls.
         bind_exc (analyze_behavioral_signals E self) (\<lambda>bs.
         bind_exc (analyze_advanced_behavioral E self) (\<lambda>adv.
         bind_exc (analyze_vm_detection self) (\<lambda>vm.
         bind_exc (analyze_extensions self) (\<lambda>ext.
         bind_exc (analyze_timing self) (\<lambda>tim.
         bind_exc (analyze_css_media self) (\<lambda>css.
         bind_exc (analyze_speech self) (\<lambda>sp.
         bind_exc (analyze_client_hints self) (\<lambda>ch.
           (let res = \<lparr> ip_address = ip self,
                        basic_info = analyze_basic_info self,
                        header_analysis = analyze_headers self,
                        user_agent_analysis = analyze_user_agent E self,
                        browser_fingerprint = fp,
                        proxy_vpn_detection = px,
                        automation_detection = au,
                        consistency_checks = cc,
                        threat_indicators = detect_threats self,
                        tls_analysis = tls,
                        behavioral_signals = bs,
                        advanced_behavioral = adv,
                        vm_detection = vm,
                        browser_extensions = ext,
                        timing_analysis = tim,
                        css_media_queries = css,
                        speech_synthesis = sp,
                        client_hints = ch \<rparr>
            in Inr (results.extend res
                      \<lparr> risk_assessment = calculate_risk_score res \<rparr>))))))))))))))))"

text \<open>
  The \<^verbatim>\<open>/analyze\<close> endpoint. What \<^verbatim>\<open>request.get_json()\<close> does with the body is Flask's:
  its outcome is the argument \<open>body\<close>, an exception raised or the value returned.
  Every exception raised inside the \<^verbatim>\<open>try\<close> block, that of \<^verbatim>\<open>get_json\<close> included,
  becomes the failure response with status 500.
\<close>

record response =
  success :: bool
  response_results :: "full_results option"
  error :: "pyexc option"
  status :: nat

definition succeeded :: "full_results \<Rightarrow> response" where
  "succeeded res = \<lparr> success = True, response_results = Some res, error = None, status = 200 \<rparr>"

definition failure :: "pyexc \<Rightarrow> response" where
  "failure e = \<lparr> success = False, response_results = None, error = Some e, status = 500 \<rparr>"

definition analyze_visitor :: "externals \<Rightarrow> request \<Rightarrow> pyexc + pyval \<Rightarrow> response" where
  "analyze_visitor E req body =
     (case bind_exc body (\<lambda>data.
             bind_exc (if truthy data then py_get data ''fingerprint'' (PDict [])
                       else Inr (PDict [])) (\<lambda>client_fingerprint.
               analyze E (init req) client_fingerprint)) of
        Inl e \<Rightarrow> failure e
      | Inr res \<Rightarrow> succeeded res)"

section \<open>The weight table of the specification\<close>

text \<open>
  The table of the specification's aggregator section, written from its rows and not
  from the source: what each signal adds to the score. An indicator is present when its
  entry holds a text.
\<close>

definition indicator_present :: "string option \<Rightarrow> bool" where
  "indicator_present b = (case b of None \<Rightarrow> False | Some t \<Rightarrow> t \<noteq> [])"

definition spec_weights :: "'a results_scheme \<Rightarrow> int list" where
  "spec_weights res =
     [ (let q = header_quality (header_analysis res)
        in if q = ''bad'' then 25 else if q = ''suspicious'' then 15 else 0),
       (let q = ua_quality (user_agent_analysis res)
        in if q = ''bad'' then 20 else if q = ''suspicious'' then 10 else 0),
       (let q = fp_quality (browser_fingerprint res)
        in if q = ''bad'' then 30 else if q = ''suspicious'' then 15 else 0),
       (let p = proxy_risk (proxy_vpn_detection res)
        in if p = ''high'' then 20 else if p = ''medium'' then 10 else 0),
       (let c = automation_confidence (automation_detection res)
        in if c = ''very_high'' \<or> c = ''high'' then 25 else if c = ''medium'' then 10 else 0),
       (let f = failed (consistency_checks res)
        in if f > 2 then 15 else if f > 0 then 5 else 0),
       (let t = threat_level (threat_indicators res)
        in if t = ''critical'' then 50 else if t = ''high'' then 30 else 0),
       (if human_likelihood (advanced_behavioral res) = ''low'' then 20 else 0),
       (if indicator_present
             (case mouse_behavior (advanced_behavioral res) of
                None \<Rightarrow> None | Some m \<Rightarrow> mouse_bot_indicator m)
        then 10 else 0),
       (if indicator_present
             (case click_behavior (advanced_behavioral res) of
                None \<Rightarrow> None | Some c \<Rightarrow> click_bot_indicator c)
        then 10 else 0),
       (if is_likely_vm (vm_detection res) then 15 else 0),
       (if suspicion_level (timing_analysis res) = ''high'' then 15 else 0),
       0 ]"

text \<open>The thresholds of the specification: the level and the visitor quality of a
  score.\<close>

definition spec_level :: "int \<Rightarrow> string \<times> string" where
  "spec_level score =
     (if score \<ge> 70 then (''critical'', ''bad'')
      else if score \<ge> 50 then (''high'', ''bad'')
      else if score \<ge> 30 then (''medium'', ''suspicious'')
      else if score \<ge> 15 then (''low'', ''acceptable'')
      else (''minimal'', ''good''))"

section \<open>Sample inputs\<close>

text \<open>A browser request to \<^verbatim>\<open>/analyze\<close> with the six standard headers, and sample stand-ins
  for the library functions: a parser that reports Firefox on Linux and no bot, exact
  conversions and sums.\<close>

definition browser_ua :: string where
  "browser_ua = ''Mozilla/5.0 (X11; Linux x86_64; rv:121.0) Gecko/20100101 Firefox/121.0''"

definition browser_request :: request where
  "browser_request =
     \<lparr> req_headers =
         [(''Host'', ''example.org''),
          (''User-Agent'', browser_ua),
          (''Accept'', ''text/html,application/xml;q=0.9,*/*;q=0.8''),
          (''Accept-Language'', ''en-US,en;q=0.9''),
          (''Accept-Encoding'', ''gzip, deflate, br''),
          (''Connection'', ''keep-alive''),
          (''Upgrade-Insecure-Requests'', ''1''),
          (''Content-Type'', ''application/json'')],
       remote_addr = Some ''203.0.113.7'',
       req_method = ''POST'',
       req_path = ''/analyze'',
       environ = [(''SERVER_PROTOCOL'', ''HTTP/1.1''), (''SERVER_PORT'', ''5000'')],
       is_secure = False \<rparr>"

definition sample_externals :: externals where
  "sample_externals =
     \<lparr> parse = (\<lambda>ua. \<lparr> browser = ''Firefox'', browser_version = ''121.0'', os = ''Linux'',
                        os_version = [], device = ''Other'', is_mobile = False,
                        is_tablet = False, is_pc = True, is_bot = False \<rparr>),
       float_of_pyint = (\<lambda>n. Some (of_int n)),
       float_of_pystr = (\<lambda>s. None),
       float_sum = sum_list \<rparr>"

text \<open>A request as a browser sends it over HTTP/2, where there is no \<^verbatim>\<open>Connection\<close>
  header, and without \<^verbatim>\<open>Upgrade-Insecure-Requests\<close>.\<close>

definition http2_request :: request where
  "http2_request =
     \<lparr> req_headers =
         [(''Host'', ''example.org''),
          (''User-Agent'', browser_ua),
          (''Accept'', ''text/html''),
          (''Accept-Language'', ''en-US''),
          (''Accept-Encoding'', ''gzip'')],
       remote_addr = Some ''203.0.113.7'',
       req_method = ''GET'',
       req_path = ''/'',
       environ = [],
       is_secure = True \<rparr>"

text \<open>A request that went through a proxy, with a given \<^verbatim>\<open>X-Forwarded-For\<close> value, and one
  with \<^verbatim>\<open>X-Real-IP\<close> only.\<close>

definition forwarded_request :: "string \<Rightarrow> request" where
  "forwarded_request xff =
     \<lparr> req_headers = [(''X-Forwarded-For'', xff), (''X-Real-IP'', ''9.9.9.9'')],
       remote_addr = Some ''203.0.113.7'',
       req_method = ''GET'',
       req_path = ''/'',
       environ = [],
       is_secure = False \<rparr>"

definition direct_request :: request where
  "direct_request =
     \<lparr> req_headers = [(''Host'', ''example.org'')],
       remote_addr = Some ''203.0.113.7'',
       req_method = ''GET'',
       req_path = ''/'',
       environ = [],
       is_secure = False \<rparr>"

text \<open>An analyzer object with a given fingerprint; the analyzers of the payload read
  nothing else of it but the address and the headers.\<close>

definition with_fingerprint :: "pyval \<Rightarrow> visitor_analyzer" where
  "with_fingerprint fp = (init direct_request)\<lparr>fingerprint := fp\<rparr>"

text \<open>A payload as the collection script sends it, every value of the expected kind.\<close>

definition sample_fingerprint :: "(string \<times> pyval) list" where
  "sample_fingerprint =
     [(''platform'', PStr ''Linux x86_64''),
      (''languages'', PList [PStr ''en-US'', PStr ''en'']),
      (''language'', PStr ''en-US''),
      (''plugins'', PInt 3),
      (''canvas'', PStr ''a91f03''),
      (''webgl_vendor'', PStr ''Mesa''),
      (''webgl_renderer'', PStr ''llvmpipe''),
      (''screen_width'', PInt 1920),
      (''screen_height'', PInt 1080),
      (''timezone'', PStr ''Europe/Paris''),
      (''timezone_offset'', PInt (- 60)),
      (''hardware_concurrency'', PInt 8),
      (''has_mouse_movement'', PBool True),
      (''has_scroll'', PBool True),
      (''webrtc_ips'', PList [PStr ''203.0.113.7'']),
      (''mouse_behavior'',
         PDict [(''total_movements'', PInt 120), (''average_velocity'', PFloat (825 / 2)),
                (''has_human_curves'', PBool True)]),
      (''advanced_timing'', PDict [(''time_to_first_click'', PInt 850)])]"

section \<open>The claims as the specification words them\<close>

text \<open>The header grading as the specification states it: bad on more than 2 suspicious
  patterns or more than 3 missing standard headers, suspicious on any suspicious
  pattern, good otherwise.\<close>

definition spec_header_quality :: "nat \<Rightarrow> nat \<Rightarrow> string" where
  "spec_header_quality suspicious_count missing_count =
     (if suspicious_count > 2 \<or> missing_count > 3 then ''bad''
      else if suspicious_count > 0 then ''suspicious''
      else ''good'')"

text \<open>The address precedence as the specification states it: the first value of
  \<^verbatim>\<open>X-Forwarded-For\<close> when the header is present, else \<^verbatim>\<open>X-Real-IP\<close>, else the peer.\<close>

definition spec_client_ip :: "request \<Rightarrow> string option" where
  "spec_client_ip req =
     (case request_header req ''X-Forwarded-For'' of
        Some xff \<Rightarrow> Some (strip (takeWhile (\<lambda>c. c \<noteq> CHR '','') xff))
      | None \<Rightarrow>
          (case request_header req ''X-Real-IP'' of
             Some rip \<Rightarrow> Some rip
           | None \<Rightarrow> remote_addr req))"

text \<open>The canvas entry of a payload is unavailable when the key is absent, its value is
  falsy, or its value is the text \<^verbatim>\<open>blocked\<close>.\<close>

definition canvas_unavailable :: "(string \<times> pyval) list \<Rightarrow> bool" where
  "canvas_unavailable d =
     (case map_of d ''canvas'' of
        None \<Rightarrow> True
      | Some v \<Rightarrow> \<not> truthy v \<or> v = PStr ''blocked'')"

text \<open>Values of the expected kinds: a number (a boolean is one), and a value with a
  length.\<close>

definition is_number :: "pyval \<Rightarrow> bool" where
  "is_number v = (num_of v \<noteq> None)"

definition sized :: "pyval \<Rightarrow> bool" where
  "sized v = (case v of PStr s \<Rightarrow> True | PList xs \<Rightarrow> True | PDict d \<Rightarrow> True | _ \<Rightarrow> False)"

definition languages_readable :: "(string \<times> pyval) list \<Rightarrow> bool" where
  "languages_readable d =
     (\<not> truthy (dict_get d ''languages'' (PList [])) \<or> sized (dict_get d ''languages'' (PList [])))"

definition screen_readable :: "(string \<times> pyval) list \<Rightarrow> bool" where
  "screen_readable d =
     (is_number (dict_get d ''screen_width'' (PInt 0))
      \<and> is_number (dict_get d ''screen_height'' (PInt 0)))"

text \<open>
  A payload whose present values are of the kinds the analyzers read them as. Every
  condition holds of the default the analyzer takes for an absent key. A number that is
  made a float must be in the range of a double; the behavioural signals are booleans
  or ints.
\<close>

definition is_str :: "pyval \<Rightarrow> bool" where
  "is_str v = (case v of PStr s \<Rightarrow> True | _ \<Rightarrow> False)"

definition is_int :: "pyval \<Rightarrow> bool" where
  "is_int v = (case v of PBool b \<Rightarrow> True | PInt n \<Rightarrow> True | _ \<Rightarrow> False)"

definition is_dict :: "pyval \<Rightarrow> bool" where
  "is_dict v = (case v of PDict d \<Rightarrow> True | _ \<Rightarrow> False)"

definition floatable :: "externals \<Rightarrow> pyval \<Rightarrow> bool" where
  "floatable E v =
     (case v of
        PBool b \<Rightarrow> True
      | PInt n \<Rightarrow> completes (int_to_float E n)
      | PFloat q \<Rightarrow> True
      | _ \<Rightarrow> False)"

definition behaviour_readable :: "externals \<Rightarrow> string list \<Rightarrow> pyval \<Rightarrow> bool" where
  "behaviour_readable E keys v =
     (\<not> truthy v
      \<or> (case v of
            PDict bd \<Rightarrow> list_all (\<lambda>k. floatable E (dict_get bd k (PInt 0))) keys
          | _ \<Rightarrow> False))"

definition falsy_or_number :: "pyval \<Rightarrow> bool" where
  "falsy_or_number v = (\<not> truthy v \<or> is_number v)"

definition str_list_or_falsy :: "pyval \<Rightarrow> bool" where
  "str_list_or_falsy v = (case v of PList xs \<Rightarrow> list_all is_str xs | _ \<Rightarrow> \<not> truthy v)"

definition proxy_readable :: "(string \<times> pyval) list \<Rightarrow> bool" where
  "proxy_readable d =
     ((\<not> truthy (dict_get d ''ip_info'' PNone) \<or> is_dict (dict_get d ''ip_info'' PNone))
      \<and> str_list_or_falsy (dict_get d ''webrtc_ips'' (PList [])))"

definition consistency_readable :: "(string \<times> pyval) list \<Rightarrow> bool" where
  "consistency_readable d =
     ((\<not> truthy (dict_get d ''platform'' PNone) \<or> is_str (dict_get d ''platform'' PNone))
      \<and> (\<not> truthy (dict_get d ''language'' (PStr []))
          \<or> is_str (dict_get d ''language'' (PStr [])))
      \<and> (dict_get d ''timezone_offset'' PNone = PNone
          \<or> is_number (dict_get d ''timezone_offset'' PNone))
      \<and> is_number (dict_get d ''hardware_concurrency'' (PInt 0)))"

definition signals_readable :: "(string \<times> pyval) list \<Rightarrow> bool" where
  "signals_readable d =
     (is_int (dict_get d ''has_mouse_movement'' (PBool False))
      \<and> is_int (dict_get d ''has_keyboard_input'' (PBool False))
      \<and> is_int (dict_get d ''has_page_focus'' (PBool True))
      \<and> is_int (dict_get d ''has_scroll'' (PBool False)))"

definition advanced_readable :: "externals \<Rightarrow> (string \<times> pyval) list \<Rightarrow> bool" where
  "advanced_readable E d =
     (behaviour_readable E [''average_velocity'', ''max_velocity'', ''average_acceleration'']
        (dict_get d ''mouse_behavior'' (PDict []))
      \<and> behaviour_readable E [''average_click_interval'', ''click_rhythm_variance'']
            (dict_get d ''click_behavior'' (PDict []))
      \<and> behaviour_readable E [''average_scroll_velocity'']
            (dict_get d ''scroll_behavior'' (PDict []))
      \<and> behaviour_readable E [''average_dwell_time'', ''average_flight_time'', ''typing_rhythm'']
            (dict_get d ''keyboard_behavior'' (PDict [])))"

definition timing_readable :: "(string \<times> pyval) list \<Rightarrow> bool" where
  "timing_readable d =
     (case dict_get d ''advanced_timing'' (PDict []) of
        PDict td \<Rightarrow> falsy_or_number (dict_get td ''time_to_first_click'' PNone)
                    \<and> falsy_or_number (dict_get td ''time_to_first_interaction'' PNone)
      | _ \<Rightarrow> False)"

definition speech_readable :: "(string \<times> pyval) list \<Rightarrow> bool" where
  "speech_readable d =
     (\<not> truthy (dict_get d ''speech_synthesis_support'' (PBool False))
      \<or> is_number (dict_get d ''speech_voices_count'' (PInt 0)))"

definition hints_readable :: "(string \<times> pyval) list \<Rightarrow> bool" where
  "hints_readable d =
     (\<not> truthy (dict_get d ''client_hints'' (PDict []))
      \<or> (is_dict (dict_get d ''client_hints'' (PDict []))
          \<and> is_dict (dict_get d ''client_hints_high_entropy'' (PDict []))))"

definition well_typed :: "externals \<Rightarrow> (string \<times> pyval) list \<Rightarrow> bool" where
  "well_typed E d =
     (languages_readable d
      \<and> screen_readable d
      \<and> proxy_readable d
      \<and> consistency_readable d
      \<and> signals_readable d
      \<and> advanced_readable E d
      \<and> is_dict (dict_get d ''vm_detection'' (PDict []))
      \<and> is_dict (dict_get d ''browser_extensions'' (PDict []))
      \<and> timing_readable d
      \<and> is_dict (dict_get d ''css_media_queries'' (PDict []))
      \<and> speech_readable d
      \<and> hints_readable d)"

text \<open>The payload without a key.\<close>

definition without_key :: "string \<Rightarrow> (string \<times> pyval) list \<Rightarrow> (string \<times> pyval) list" where
  "without_key k d = filter (\<lambda>(k', v). k' \<noteq> k) d"

text \<open>All the analyzers that read the payload complete on the analyzer object.\<close>

definition analyzers_complete :: "externals \<Rightarrow> visitor_analyzer \<Rightarrow> bool" where
  "analyzers_complete E self =
     (completes (analyze_browser_fingerprint self)
      \<and> completes (detect_proxy_vpn self)
      \<and> completes (detect_automation self)
      \<and> completes (check_consistency E self)
      \<and> completes (analyze_tls self)
      \<and> completes (analyze_behavioral_signals E self)
      \<and> completes (analyze_advanced_behavioral E self)
      \<and> completes (analyze_vm_detection self)
      \<and> completes (analyze_extensions self)
      \<and> completes (analyze_timing self)
      \<and> completes (analyze_css_media self)
      \<and> completes (analyze_speech self)
      \<and> completes (analyze_client_hints self))"

section \<open>Properties\<close>

subsection \<open>Evaluation of the string functions\<close>

lemma lower_char_ascii:
  "lower_char (CHR '' '') = CHR '' ''"
  "lower_char (CHR ''!'') = CHR ''!''"
  "lower_char (CHR 0x22) = CHR 0x22"
  "lower_char (CHR ''#'') = CHR ''#''"
  "lower_char (CHR ''$'') = CHR ''$''"
  "lower_char (CHR ''%'') = CHR ''%''"
  "lower_char (CHR ''&'') = CHR ''&''"
  "lower_char (CHR 0x27) = CHR 0x27"
  "lower_char (CHR ''('') = CHR ''(''"
  "lower_char (CHR '')'') = CHR '')''"
  "lower_char (CHR ''*'') = CHR ''*''"
  "lower_char (CHR ''+'') = CHR ''+''"
  "lower_char (CHR '','') = CHR '',''"
  "lower_char (CHR ''-'') = CHR ''-''"
  "lower_char (CHR ''.'') = CHR ''.''"
  "lower_char (CHR ''/'') = CHR ''/''"
  "lower_char (CHR ''0'') = CHR ''0''"
  "lower_char (CHR ''1'') = CHR ''1''"
  "lower_char (CHR ''2'') = CHR ''2''"
  "lower_char (CHR ''3'') = CHR ''3''"
  "lower_char (CHR ''4'') = CHR ''4''"
  "lower_char (CHR ''5'') = CHR ''5''"
  "lower_char (CHR ''6'') = CHR ''6''"
  "lower_char (CHR ''7'') = CHR ''7''"
  "lower_char (CHR ''8'') = CHR ''8''"
  "lower_char (CHR ''9'') = CHR ''9''"
  "lower_char (CHR '':'') = CHR '':''"
  "lower_char (CHR '';'') = CHR '';''"
  "lower_char (CHR ''<'') = CHR ''<''"
  "lower_char (CHR ''='') = CHR ''=''"
  "lower_char (CHR ''>'') = CHR ''>''"
  "lower_char (CHR ''?'') = CHR ''?''"
  "lower_char (CHR ''@'') = CHR ''@''"
  "lower_char (CHR ''A'') = CHR ''a''"
  "lower_char (CHR ''B'') = CHR ''b''"
  "lower_char (CHR ''C'') = CHR ''c''"
  "lower_char (CHR ''D'') = CHR ''d''"
  "lower_char (CHR ''E'') = CHR ''e''"
  "lower_char (CHR ''F'') = CHR ''f''"
  "lower_char (CHR ''G'') = CHR ''g''"
  "lower_char (CHR ''H'') = CHR ''h''"
  "lower_char (CHR ''I'') = CHR ''i''"
  "lower_char (CHR ''J'') = CHR ''j''"
  "lower_char (CHR ''K'') = CHR ''k''"
  "lower_char (CHR ''L'') = CHR ''l''"
  "lower_char (CHR ''M'') = CHR ''m''"
  "lower_char (CHR ''N'') = CHR ''n''"
  "lower_char (CHR ''O'') = CHR ''o''"
  "lower_char (CHR ''P'') = CHR ''p''"
  "lower_char (CHR ''Q'') = CHR ''q''"
  "lower_char (CHR ''R'') = CHR ''r''"
  "lower_char (CHR ''S'') = CHR ''s''"
  "lower_char (CHR ''T'') = CHR ''t''"
  "lower_char (CHR ''U'') = CHR ''u''"
  "lower_char (CHR ''V'') = CHR ''v''"
  "lower_char (CHR ''W'') = CHR ''w''"
  "lower_char (CHR ''X'') = CHR ''x''"
  "lower_char (CHR ''Y'') = CHR ''y''"
  "lower_char (CHR ''Z'') = CHR ''z''"
  "lower_char (CHR ''['') = CHR ''[''"
  "lower_char (CHR 0x5C) = CHR 0x5C"
  "lower_char (CHR '']'') = CHR '']''"
  "lower_char (CHR ''^'') = CHR ''^''"
  "lower_char (CHR ''_'') = CHR ''_''"
  "lower_char (CHR 0x60) = CHR 0x60"
  "lower_char (CHR ''a'') = CHR ''a''"
  "lower_char (CHR ''b'') = CHR ''b''"
  "lower_char (CHR ''c'') = CHR ''c''"
  "lower_char (CHR ''d'') = CHR ''d''"
  "lower_char (CHR ''e'') = CHR ''e''"
  "lower_char (CHR ''f'') = CHR ''f''"
  "lower_char (CHR ''g'') = CHR ''g''"
  "lower_char (CHR ''h'') = CHR ''h''"
  "lower_char (CHR ''i'') = CHR ''i''"
  "lower_char (CHR ''j'') = CHR ''j''"
  "lower_char (CHR ''k'') = CHR ''k''"
  "lower_char (CHR ''l'') = CHR ''l''"
  "lower_char (CHR ''m'') = CHR ''m''"
  "lower_char (CHR ''n'') = CHR ''n''"
  "lower_char (CHR ''o'') = CHR ''o''"
  "lower_char (CHR ''p'') = CHR ''p''"
  "lower_char (CHR ''q'') = CHR ''q''"
  "lower_char (CHR ''r'') = CHR ''r''"
  "lower_char (CHR ''s'') = CHR ''s''"
  "lower_char (CHR ''t'') = CHR ''t''"
  "lower_char (CHR ''u'') = CHR ''u''"
  "lower_char (CHR ''v'') = CHR ''v''"
  "lower_char (CHR ''w'') = CHR ''w''"
  "lower_char (CHR ''x'') = CHR ''x''"
  "lower_char (CHR ''y'') = CHR ''y''"
  "lower_char (CHR ''z'') = CHR ''z''"
  "lower_char (CHR ''{'') = CHR ''{''"
  "lower_char (CHR ''|'') = CHR ''|''"
  "lower_char (CHR ''}'') = CHR ''}''"
  "lower_char (CHR ''~'') = CHR ''~''"
  by (simp_all add: lower_char_def upper_lower_def latin1_upper_def latin1_lower_def)

lemma lower_Nil: "lower [] = []"
  by (simp add: lower_def)

lemma lower_Cons: "lower (c # cs) = lower_char c # lower cs"
  by (simp add: lower_def)

lemmas lower_eval = lower_Nil lower_Cons lower_char_ascii

lemma split_on_not_Nil: "split_on c s \<noteq> []"
  by (induction s) (auto split: list.splits)

lemma hd_split_on: "hd (split_on c s) = takeWhile (\<lambda>x. x \<noteq> c) s"
  by (induction s) (auto split: list.splits simp: split_on_not_Nil)


subsection \<open>The aggregator\<close>

lemma total_score_red_flag [simp]: "total_score (red_flag f r) = total_score r"
  by (simp add: red_flag_def)
lemma total_score_green_flag [simp]: "total_score (green_flag f r) = total_score r"
  by (simp add: green_flag_def)
lemma total_score_add_score [simp]: "total_score (add_score n r) = total_score r + n"
  by (simp add: add_score_def)

lemma is_genuine_red_flag [simp]: "is_genuine (red_flag f r) = is_genuine r"
  by (simp add: red_flag_def)
lemma is_genuine_green_flag [simp]: "is_genuine (green_flag f r) = is_genuine r"
  by (simp add: green_flag_def)
lemma is_genuine_add_score [simp]: "is_genuine (add_score n r) = is_genuine r"
  by (simp add: add_score_def)

lemma score_header_quality_total:
  "total_score (score_header_quality q r) =
     total_score r + (if q = ''bad'' then 25 else if q = ''suspicious'' then 15 else 0)"
  by (simp add: score_header_quality_def)

lemma score_ua_quality_total:
  "total_score (score_ua_quality q r) =
     total_score r + (if q = ''bad'' then 20 else if q = ''suspicious'' then 10 else 0)"
  by (simp add: score_ua_quality_def)

lemma score_fp_quality_total:
  "total_score (score_fp_quality q r) =
     total_score r + (if q = ''bad'' then 30 else if q = ''suspicious'' then 15 else 0)"
  by (simp add: score_fp_quality_def)

lemma score_proxy_risk_total:
  "total_score (score_proxy_risk p r) =
     total_score r + (if p = ''high'' then 20 else if p = ''medium'' then 10 else 0)"
  by (simp add: score_proxy_risk_def)

lemma score_automation_total:
  "total_score (score_automation c r) =
     total_score r + (if c = ''very_high'' \<or> c = ''high'' then 25 else if c = ''medium'' then 10 else 0)"
  by (simp add: score_automation_def)

lemma score_consistency_total:
  "total_score (score_consistency c r) =
     total_score r + (if failed c > 2 then 15 else if failed c > 0 then 5 else 0)"
  by (simp add: score_consistency_def)

lemma score_threat_total:
  "total_score (score_threat t r) =
     total_score r + (if t = ''critical'' then 50 else if t = ''high'' then 30 else 0)"
  by (simp add: score_threat_def)

lemma score_likelihood_total:
  "total_score (score_likelihood h r) = total_score r + (if h = ''low'' then 20 else 0)"
  by (simp add: score_likelihood_def)

lemma score_mouse_total:
  "total_score (score_mouse mb r) =
     total_score r + (if indicator_present (case mb of None \<Rightarrow> None | Some m \<Rightarrow> mouse_bot_indicator m)
                      then 10 else 0)"
  by (simp add: score_mouse_def indicator_present_def split: option.splits)

lemma score_click_total:
  "total_score (score_click cb r) =
     total_score r + (if indicator_present (case cb of None \<Rightarrow> None | Some c \<Rightarrow> click_bot_indicator c)
                      then 10 else 0)"
  by (simp add: score_click_def indicator_present_def split: option.splits)

lemma score_vm_total:
  "total_score (score_vm vm r) = total_score r + (if is_likely_vm vm then 15 else 0)"
  by (simp add: score_vm_def)

lemma score_timing_total:
  "total_score (score_timing t r) = total_score r + (if suspicion_level t = ''high'' then 15 else 0)"
  by (simp add: score_timing_def)

lemma score_extensions_total:
  "total_score (score_extensions e r) = total_score r"
  by (simp add: score_extensions_def)

lemmas block_totals = score_header_quality_total score_ua_quality_total score_fp_quality_total
  score_proxy_risk_total score_automation_total score_consistency_total score_threat_total
  score_likelihood_total score_mouse_total score_click_total score_vm_total score_timing_total
  score_extensions_total

lemma score_findings_total: "total_score (score_findings res) = sum_list (spec_weights res)"
  unfolding score_findings_def spec_weights_def Let_def block_totals
  by (simp only: sum_list.Cons sum_list.Nil initial_risk_def risk.simps add.assoc add_0 add_0_right)

lemma spec_weights_nonneg: "0 \<le> sum_list (spec_weights res)"
  unfolding spec_weights_def Let_def sum_list.Cons sum_list.Nil
  by (intro add_nonneg_nonneg) simp_all


lemma total_score_calculate:
  "total_score (calculate_risk_score res) = min 100 (sum_list (spec_weights res))"
  by (simp add: calculate_risk_score_def calculate_confidence_def determine_risk_level_def
      cap_score_def score_findings_total min.commute)

lemma level_calculate:
  "(risk_level (calculate_risk_score res), visitor_quality (calculate_risk_score res))
     = spec_level (total_score (calculate_risk_score res))"
  by (simp add: calculate_risk_score_def calculate_confidence_def determine_risk_level_def
      spec_level_def)

text \<open>
  C1. Whatever the findings, the total score of the assessment lies between 0 and 100:
  it is the sum of the contributions of the specification's weight table, capped at 100.
  The risk level and the visitor quality are those the thresholds give for this score
  (70 critical/bad, 50 high/bad, 30 medium/suspicious, 15 low/acceptable, below that
  minimal/good), and each boundary belongs to the higher tier.
\<close>

theorem risk_score_bounded_and_graded:
  "0 \<le> total_score (calculate_risk_score res)
   \<and> total_score (calculate_risk_score res) \<le> 100
   \<and> total_score (calculate_risk_score res) = min 100 (sum_list (spec_weights res))
   \<and> (risk_level (calculate_risk_score res), visitor_quality (calculate_risk_score res))
       = spec_level (total_score (calculate_risk_score res))
   \<and> spec_level 70 = (''critical'', ''bad'') \<and> spec_level 69 = (''high'', ''bad'')
   \<and> spec_level 50 = (''high'', ''bad'') \<and> spec_level 49 = (''medium'', ''suspicious'')
   \<and> spec_level 30 = (''medium'', ''suspicious'') \<and> spec_level 29 = (''low'', ''acceptable'')
   \<and> spec_level 15 = (''low'', ''acceptable'') \<and> spec_level 14 = (''minimal'', ''good'')"
proof -
  have "0 \<le> sum_list (spec_weights res)" by (rule spec_weights_nonneg)
  then have "0 \<le> total_score (calculate_risk_score res)"
    and "total_score (calculate_risk_score res) \<le> 100"
    by (simp_all add: total_score_calculate)
  then show ?thesis
    using total_score_calculate [of res] level_calculate [of res]
    by (simp add: spec_level_def)
qed

lemma is_genuine_blocks:
  "is_genuine (score_header_quality hq r) = is_genuine r"
  "is_genuine (score_ua_quality uq r) = is_genuine r"
  "is_genuine (score_fp_quality fq r) = (is_genuine r \<and> fq \<noteq> ''bad'')"
  "is_genuine (score_proxy_risk pr r) = is_genuine r"
  "is_genuine (score_automation ac r) = (is_genuine r \<and> ac \<noteq> ''very_high'' \<and> ac \<noteq> ''high'')"
  "is_genuine (score_consistency cc r) = is_genuine r"
  "is_genuine (score_threat lvl r) = (is_genuine r \<and> lvl \<noteq> ''critical'')"
  "is_genuine (score_likelihood hl r) = is_genuine r"
  "is_genuine (score_mouse mb r) = is_genuine r"
  "is_genuine (score_click cb r) = is_genuine r"
  "is_genuine (score_vm vm r) = is_genuine r"
  "is_genuine (score_timing tim r) = is_genuine r"
  "is_genuine (score_extensions ext r) = is_genuine r"
  "is_genuine (cap_score r) = is_genuine r"
  "is_genuine (determine_risk_level r) = is_genuine r"
  "is_genuine (calculate_confidence r) = is_genuine r"
  by (simp_all add: score_header_quality_def score_ua_quality_def score_fp_quality_def
      score_proxy_risk_def score_automation_def score_consistency_def score_threat_def
      score_likelihood_def score_mouse_def score_click_def score_vm_def score_timing_def
      score_extensions_def cap_score_def determine_risk_level_def calculate_confidence_def
      split: option.splits)

text \<open>
  C2. The assessment is not genuine exactly when the fingerprint quality is bad, the
  automation confidence is high or very high, or the threat level is critical. The flag
  starts true, and no block of the aggregation sets it back: after a block it holds only
  if it held before, and the three flagged blocks clear it under their condition.
\<close>

theorem is_genuine_iff_not_flagged:
  "is_genuine (calculate_risk_score res) =
     (\<not> (fp_quality (browser_fingerprint res) = ''bad''
         \<or> automation_confidence (automation_detection res) \<in> {''high'', ''very_high''}
         \<or> threat_level (threat_indicators res) = ''critical''))
   \<and> is_genuine initial_risk
   \<and> (\<forall>r. is_genuine (score_header_quality hq r) = is_genuine r)
   \<and> (\<forall>r. is_genuine (score_ua_quality uq r) = is_genuine r)
   \<and> (\<forall>r. is_genuine (score_fp_quality fq r) = (is_genuine r \<and> fq \<noteq> ''bad''))
   \<and> (\<forall>r. is_genuine (score_proxy_risk pr r) = is_genuine r)
   \<and> (\<forall>r. is_genuine (score_automation ac r)
            = (is_genuine r \<and> ac \<noteq> ''very_high'' \<and> ac \<noteq> ''high''))
   \<and> (\<forall>r. is_genuine (score_consistency cc r) = is_genuine r)
   \<and> (\<forall>r. is_genuine (score_threat lvl r) = (is_genuine r \<and> lvl \<noteq> ''critical''))
   \<and> (\<forall>r. is_genuine (score_likelihood hl r) = is_genuine r)
   \<and> (\<forall>r. is_genuine (score_mouse mb r) = is_genuine r)
   \<and> (\<forall>r. is_genuine (score_click cb r) = is_genuine r)
   \<and> (\<forall>r. is_genuine (score_vm vm r) = is_genuine r)
   \<and> (\<forall>r. is_genuine (score_timing tim r) = is_genuine r)
   \<and> (\<forall>r. is_genuine (score_extensions ext r) = is_genuine r)
   \<and> (\<forall>r. is_genuine (cap_score r) = is_genuine r)
   \<and> (\<forall>r. is_genuine (determine_risk_level r) = is_genuine r)
   \<and> (\<forall>r. is_genuine (calculate_confidence r) = is_genuine r)"
proof -
  have "is_genuine (calculate_risk_score res) =
     (\<not> (fp_quality (browser_fingerprint res) = ''bad''
         \<or> automation_confidence (automation_detection res) \<in> {''high'', ''very_high''}
         \<or> threat_level (threat_indicators res) = ''critical''))"
    unfolding calculate_risk_score_def score_findings_def Let_def is_genuine_blocks
    by (auto simp: initial_risk_def)
  moreover have "is_genuine initial_risk"
    by (simp add: initial_risk_def)
  ultimately show ?thesis
    by (simp only: is_genuine_blocks simp_thms)
qed

text \<open>
  C3. The stored confidence is the minimum of 100 and the final, already capped total
  score plus 5 for each red flag, so recomputing it from the assessment's own score and
  red flags gives the stored number.
\<close>

theorem confidence_recomputed:
  "confidence (calculate_risk_score res) =
     min 100 (total_score (calculate_risk_score res)
              + 5 * int (length (red_flags (calculate_risk_score res))))
   \<and> total_score (calculate_risk_score res) \<le> 100"
  by (simp add: calculate_risk_score_def calculate_confidence_def determine_risk_level_def
      cap_score_def mult.commute)

subsection \<open>The header analyzer and the client address\<close>

lemma init_http2:
  "init http2_request =
     \<lparr> request = http2_request, ip = Some ''203.0.113.7'',
       headers = req_headers http2_request, user_agent = browser_ua, fingerprint = PDict [] \<rparr>"
  by (simp add: init_def get_client_ip_def request_header_def http2_request_def lower_eval
      dict_of_items_def)

lemma signatures_http2: "automation_signatures (req_headers http2_request) = []"
  by (simp add: http2_request_def browser_ua_def automation_signatures_def
      automation_headers_def lower_eval)

lemma analyze_headers_http2:
  "analyze_headers (init http2_request) =
     \<lparr> total_headers = 5, suspicious_patterns = [],
       missing_standard_headers = [''Connection'', ''Upgrade-Insecure-Requests''],
       proxy_headers = [], header_quality = ''suspicious'' \<rparr>"
  unfolding analyze_headers_def init_http2
  by (simp add: signatures_http2)
     (simp add: http2_request_def has_key_def header_get_def standard_headers_def
        proxy_indicators_def Let_def)

text \<open>
  C7, as the specification words it, fails: a request with five headers that lacks
  \<^verbatim>\<open>Connection\<close> and \<^verbatim>\<open>Upgrade-Insecure-Requests\<close> records no suspicious pattern and two
  missing standard headers, and is graded suspicious where the specification's rule
  gives good.
\<close>

theorem header_quality_counterexample:
  "suspicious_patterns (analyze_headers (init http2_request)) = []
   \<and> length (missing_standard_headers (analyze_headers (init http2_request))) = 2
   \<and> header_quality (analyze_headers (init http2_request)) = ''suspicious''
   \<and> spec_header_quality
         (length (suspicious_patterns (analyze_headers (init http2_request))))
         (length (missing_standard_headers (analyze_headers (init http2_request)))) = ''good''"
  by (simp add: analyze_headers_http2 spec_header_quality_def)

text \<open>
  C7, amended. The header analyzer grades bad exactly when it recorded more than 2
  suspicious patterns or more than 3 missing standard headers; otherwise suspicious
  exactly when it recorded a suspicious pattern or more than 1 missing standard header;
  and good in all other cases.
\<close>

theorem header_quality_grading:
  "header_quality (analyze_headers self) =
     (if length (suspicious_patterns (analyze_headers self)) > 2
         \<or> length (missing_standard_headers (analyze_headers self)) > 3 then ''bad''
      else if length (suspicious_patterns (analyze_headers self)) > 0
         \<or> length (missing_standard_headers (analyze_headers self)) > 1 then ''suspicious''
      else ''good'')"
  by (simp add: analyze_headers_def Let_def)

lemma request_header_forwarded:
  "request_header (forwarded_request xff) ''X-Forwarded-For'' = Some xff"
  "request_header (forwarded_request xff) ''X-Real-IP'' = Some ''9.9.9.9''"
  by (simp_all add: request_header_def forwarded_request_def lower_eval)

lemma request_header_direct:
  "request_header direct_request ''X-Forwarded-For'' = None"
  "request_header direct_request ''X-Real-IP'' = None"
  by (simp_all add: request_header_def direct_request_def lower_eval)

lemma remote_addr_direct: "remote_addr direct_request = Some ''203.0.113.7''"
  by (simp add: direct_request_def)

lemma strip_first: "strip ''1.2.3.4'' = ''1.2.3.4''"
  by (simp add: strip_def py_isspace_def whitespace_def)

text \<open>
  C8, as the specification words it, fails: with \<^verbatim>\<open>X-Forwarded-For\<close> present and empty and
  \<^verbatim>\<open>X-Real-IP: 9.9.9.9\<close>, the resolved address is 9.9.9.9 and not the (empty) first
  forwarded value.
\<close>

theorem client_ip_counterexample:
  "request_header (forwarded_request []) ''X-Forwarded-For'' = Some []
   \<and> get_client_ip (forwarded_request []) = Some ''9.9.9.9''
   \<and> spec_client_ip (forwarded_request []) = Some []
   \<and> get_client_ip (forwarded_request []) \<noteq> spec_client_ip (forwarded_request [])"
  by (simp add: get_client_ip_def spec_client_ip_def request_header_forwarded strip_def)

text \<open>
  C8, amended. The resolved address is the first comma-separated value, trimmed, of
  \<^verbatim>\<open>X-Forwarded-For\<close> when that header is present and not empty; otherwise the value of
  \<^verbatim>\<open>X-Real-IP\<close> when that header is present and not empty; otherwise the peer address.
  With \<^verbatim>\<open>X-Forwarded-For: 1.2.3.4, 5.6.7.8\<close> and \<^verbatim>\<open>X-Real-IP: 9.9.9.9\<close> it is 1.2.3.4.
\<close>

theorem client_ip_precedence:
  "(\<forall>xff. request_header req ''X-Forwarded-For'' = Some xff \<and> xff \<noteq> []
       \<longrightarrow> get_client_ip req = Some (strip (takeWhile (\<lambda>c. c \<noteq> CHR '','') xff)))
   \<and> (\<forall>rip. request_header req ''X-Forwarded-For'' \<in> {None, Some []}
          \<and> request_header req ''X-Real-IP'' = Some rip \<and> rip \<noteq> []
       \<longrightarrow> get_client_ip req = Some rip)
   \<and> (request_header req ''X-Forwarded-For'' \<in> {None, Some []}
        \<and> request_header req ''X-Real-IP'' \<in> {None, Some []}
       \<longrightarrow> get_client_ip req = remote_addr req)
   \<and> get_client_ip (forwarded_request ''1.2.3.4, 5.6.7.8'') = Some ''1.2.3.4''"
proof -
  have "get_client_ip (forwarded_request ''1.2.3.4, 5.6.7.8'') = Some ''1.2.3.4''"
    by (simp add: get_client_ip_def request_header_forwarded hd_split_on strip_first)
  then show ?thesis
    by (auto simp: get_client_ip_def hd_split_on split: option.splits)
qed

text \<open>The three cases of the precedence at sample requests.\<close>

theorem client_ip_precedence_witness:
  "request_header (forwarded_request ''1.2.3.4, 5.6.7.8'') ''X-Forwarded-For''
     = Some ''1.2.3.4, 5.6.7.8''
   \<and> get_client_ip (forwarded_request ''1.2.3.4, 5.6.7.8'') = Some ''1.2.3.4''
   \<and> request_header (forwarded_request []) ''X-Forwarded-For'' = Some []
   \<and> request_header (forwarded_request []) ''X-Real-IP'' = Some ''9.9.9.9''
   \<and> get_client_ip (forwarded_request []) = Some ''9.9.9.9''
   \<and> request_header direct_request ''X-Forwarded-For'' = None
   \<and> request_header direct_request ''X-Real-IP'' = None
   \<and> get_client_ip direct_request = Some ''203.0.113.7''"
  using client_ip_precedence [of "forwarded_request ''1.2.3.4, 5.6.7.8''"]
    client_ip_precedence [of "forwarded_request []"]
    client_ip_precedence [of direct_request]
  by (simp add: request_header_forwarded request_header_direct strip_first remote_addr_direct)

subsection \<open>The analyzers of the payload\<close>

lemma completes_Inr [simp]: "completes (Inr x)"
  by (simp add: completes_def)

lemma completes_Inl [simp]: "\<not> completes (Inl e)"
  by (simp add: completes_def)

lemma completes_iff: "completes m \<longleftrightarrow> (\<exists>x. m = Inr x)"
  by (cases m) simp_all

lemma completes_bind:
  "completes m \<Longrightarrow> (\<And>x. m = Inr x \<Longrightarrow> completes (f x)) \<Longrightarrow> completes (bind_exc m f)"
  by (cases m) (simp_all add: bind_exc_def)

lemma check_languages_completes:
  "languages_readable d \<Longrightarrow> completes (check_languages d a)"
  by (cases "dict_get d ''languages'' (PList [])")
     (auto simp: check_languages_def languages_readable_def sized_def bind_exc_def Let_def)

lemma check_screen_completes:
  "screen_readable d \<Longrightarrow> completes (check_screen d a)"
  by (auto simp: check_screen_def screen_readable_def is_number_def lt_int_def bind_exc_def
      Let_def)

lemma fingerprint_analysis_completes:
  assumes "fingerprint self = PDict d" and "languages_readable d" and "screen_readable d"
  shows "completes (analyze_browser_fingerprint self)"
proof (cases "d = []")
  case True
  then show ?thesis using assms(1) by (simp add: analyze_browser_fingerprint_def Let_def)
next
  case False
  then show ?thesis
    using assms(1)
    by (auto simp: analyze_browser_fingerprint_def Let_def
        intro!: completes_bind check_languages_completes [OF assms(2)]
          check_screen_completes [OF assms(3)])
qed

lemma check_ip_info_completes:
  "\<not> truthy (dict_get d ''ip_info'' PNone) \<or> is_dict (dict_get d ''ip_info'' PNone)
   \<Longrightarrow> completes (check_ip_info d det)"
  by (cases "dict_get d ''ip_info'' PNone")
     (auto simp: check_ip_info_def is_dict_def Let_def)

lemma join_str_list: "list_all is_str xs \<Longrightarrow> \<not> join_raises (PList xs)"
  by (induction xs) (auto simp: join_raises_def is_str_def split: pyval.splits)

lemma check_webrtc_completes:
  assumes "str_list_or_falsy (dict_get d ''webrtc_ips'' (PList []))"
  shows "completes (check_webrtc self d det)"
proof (cases "dict_get d ''webrtc_ips'' (PList [])")
  case (PList xs)
  then have "\<not> join_raises (PList xs)"
    using assms by (simp add: str_list_or_falsy_def join_str_list)
  then show ?thesis
    using PList by (simp add: check_webrtc_def Let_def bind_exc_def ip_in_def)
qed (insert assms, simp_all add: check_webrtc_def str_list_or_falsy_def Let_def)

lemma proxy_detection_completes:
  assumes "fingerprint self = PDict d" and "proxy_readable d"
  shows "completes (detect_proxy_vpn self)"
  using assms
  by (auto simp: detect_proxy_vpn_def proxy_readable_def Let_def
      intro!: completes_bind check_ip_info_completes check_webrtc_completes)

lemma automation_detection_completes:
  "fingerprint self = PDict d \<Longrightarrow> completes (detect_automation self)"
  by (simp add: detect_automation_def Let_def)

lemma os_consistency_completes:
  "\<not> truthy (dict_get d ''platform'' PNone) \<or> is_str (dict_get d ''platform'' PNone)
   \<Longrightarrow> completes (os_consistency E self d c)"
  by (cases "dict_get d ''platform'' PNone")
     (auto simp: os_consistency_def is_str_def Let_def)

lemma language_consistency_completes:
  "\<not> truthy (dict_get d ''language'' (PStr [])) \<or> is_str (dict_get d ''language'' (PStr []))
   \<Longrightarrow> completes (language_consistency self d c)"
  by (cases "dict_get d ''language'' (PStr [])")
     (auto simp: language_consistency_def is_str_def Let_def)

lemma timezone_validation_completes:
  "dict_get d ''timezone_offset'' PNone = PNone \<or> is_number (dict_get d ''timezone_offset'' PNone)
   \<Longrightarrow> completes (timezone_validation d c)"
  by (auto simp: timezone_validation_def is_number_def lt_int_def gt_int_def bind_exc_def Let_def)

lemma hardware_concurrency_completes:
  "is_number (dict_get d ''hardware_concurrency'' (PInt 0))
   \<Longrightarrow> completes (hardware_concurrency_check d c)"
  by (auto simp: hardware_concurrency_check_def is_number_def gt_int_def bind_exc_def Let_def)

lemma consistency_completes:
  assumes "fingerprint self = PDict d" and "consistency_readable d"
  shows "completes (check_consistency E self)"
  using assms
  by (auto simp: check_consistency_def consistency_readable_def
      intro!: completes_bind os_consistency_completes language_consistency_completes
        timezone_validation_completes hardware_concurrency_completes)

lemma tls_completes:
  "fingerprint self = PDict d \<Longrightarrow> completes (analyze_tls self)"
  by (simp add: analyze_tls_def)

lemma int_sum_loop_ints:
  "list_all is_int xs \<Longrightarrow> \<exists>m. int_sum_loop E n xs = Inr (PInt m)"
  by (induction xs arbitrary: n) (auto simp: is_int_def split: pyval.splits)

lemma signals_complete:
  assumes "fingerprint self = PDict d" and "signals_readable d"
  shows "completes (analyze_behavioral_signals E self)"
proof -
  let ?xs = "[dict_get d ''has_mouse_movement'' (PBool False),
              dict_get d ''has_keyboard_input'' (PBool False),
              dict_get d ''has_page_focus'' (PBool True),
              dict_get d ''has_scroll'' (PBool False)]"
  have "list_all is_int ?xs"
    using assms(2) by (simp add: signals_readable_def)
  then obtain m where "py_sum E ?xs = Inr (PInt m)"
    using int_sum_loop_ints [of ?xs E 0] by (auto simp: py_sum_def)
  then show ?thesis
    using assms(1)
    by (simp add: analyze_behavioral_signals_def Let_def bind_exc_def ge_int_def)
qed


lemma float_field_completes:
  "floatable E (dict_get bd k (PInt 0)) \<Longrightarrow> completes (float_field E (PDict bd) k)"
  by (cases "dict_get bd k (PInt 0)")
     (auto simp: float_field_def floatable_def bind_exc_def)

lemma analyze_mouse_completes:
  assumes "behaviour_readable E [''average_velocity'', ''max_velocity'', ''average_acceleration''] v"
  shows "completes (analyze_mouse E v)"
proof (cases "truthy v")
  case False
  then show ?thesis by (simp add: analyze_mouse_def)
next
  case True
  then obtain bd where v: "v = PDict bd"
    and fl: "floatable E (dict_get bd ''average_velocity'' (PInt 0))"
            "floatable E (dict_get bd ''max_velocity'' (PInt 0))"
            "floatable E (dict_get bd ''average_acceleration'' (PInt 0))"
    using assms by (cases v) (auto simp: behaviour_readable_def)
  obtain x1 x2 x3 where
    "float_field E (PDict bd) ''average_velocity'' = Inr x1"
    "float_field E (PDict bd) ''max_velocity'' = Inr x2"
    "float_field E (PDict bd) ''average_acceleration'' = Inr x3"
    using fl [THEN float_field_completes] by (auto simp: completes_iff)
  then show ?thesis
    using True v by (simp add: analyze_mouse_def bind_exc_def)
qed

lemma analyze_click_completes:
  assumes "behaviour_readable E [''average_click_interval'', ''click_rhythm_variance''] v"
  shows "completes (analyze_click E v)"
proof (cases "truthy v")
  case False
  then show ?thesis by (simp add: analyze_click_def)
next
  case True
  then obtain bd where v: "v = PDict bd"
    and fl: "floatable E (dict_get bd ''average_click_interval'' (PInt 0))"
            "floatable E (dict_get bd ''click_rhythm_variance'' (PInt 0))"
    using assms by (cases v) (auto simp: behaviour_readable_def)
  obtain x1 x2 where
    "float_field E (PDict bd) ''average_click_interval'' = Inr x1"
    "float_field E (PDict bd) ''click_rhythm_variance'' = Inr x2"
    using fl [THEN float_field_completes] by (auto simp: completes_iff)
  then show ?thesis
    using True v by (simp add: analyze_click_def bind_exc_def)
qed

lemma analyze_scroll_completes:
  assumes "behaviour_readable E [''average_scroll_velocity''] v"
  shows "completes (analyze_scroll E v)"
proof (cases "truthy v")
  case False
  then show ?thesis by (simp add: analyze_scroll_def)
next
  case True
  then obtain bd where v: "v = PDict bd"
    and fl: "floatable E (dict_get bd ''average_scroll_velocity'' (PInt 0))"
    using assms by (cases v) (auto simp: behaviour_readable_def)
  obtain x1 where
    "float_field E (PDict bd) ''average_scroll_velocity'' = Inr x1"
    using fl [THEN float_field_completes] by (auto simp: completes_iff)
  then show ?thesis
    using True v by (simp add: analyze_scroll_def bind_exc_def)
qed

lemma analyze_keyboard_completes:
  assumes "behaviour_readable E [''average_dwell_time'', ''average_flight_time'', ''typing_rhythm''] v"
  shows "completes (analyze_keyboard E v)"
proof (cases "truthy v")
  case False
  then show ?thesis by (simp add: analyze_keyboard_def)
next
  case True
  then obtain bd where v: "v = PDict bd"
    and fl: "floatable E (dict_get bd ''average_dwell_time'' (PInt 0))"
            "floatable E (dict_get bd ''average_flight_time'' (PInt 0))"
            "floatable E (dict_get bd ''typing_rhythm'' (PInt 0))"
    using assms by (cases v) (auto simp: behaviour_readable_def)
  obtain x1 x2 x3 where
    "float_field E (PDict bd) ''average_dwell_time'' = Inr x1"
    "float_field E (PDict bd) ''average_flight_time'' = Inr x2"
    "float_field E (PDict bd) ''typing_rhythm'' = Inr x3"
    using fl [THEN float_field_completes] by (auto simp: completes_iff)
  then show ?thesis
    using True v by (simp add: analyze_keyboard_def bind_exc_def)
qed

lemma advanced_completes:
  assumes "fingerprint self = PDict d" and "advanced_readable E d"
  shows "completes (analyze_advanced_behavioral E self)"
  using assms
  by (auto simp: analyze_advanced_behavioral_def advanced_readable_def
      intro!: completes_bind analyze_mouse_completes analyze_click_completes
        analyze_scroll_completes analyze_keyboard_completes)

lemma vm_completes:
  assumes "fingerprint self = PDict d" and "is_dict (dict_get d ''vm_detection'' (PDict []))"
  shows "completes (analyze_vm_detection self)"
  using assms
  by (cases "dict_get d ''vm_detection'' (PDict [])")
     (simp_all add: analyze_vm_detection_def is_dict_def bind_exc_def)

lemma extensions_complete:
  assumes "fingerprint self = PDict d" and "is_dict (dict_get d ''browser_extensions'' (PDict []))"
  shows "completes (analyze_extensions self)"
  using assms
  by (cases "dict_get d ''browser_extensions'' (PDict [])")
     (simp_all add: analyze_extensions_def is_dict_def bind_exc_def)

lemma present_and_below_completes:
  "falsy_or_number (dict_get td k PNone) \<Longrightarrow> completes (present_and_below td k n)"
  by (auto simp: present_and_below_def falsy_or_number_def is_number_def lt_int_def)

lemma timing_completes:
  assumes "fingerprint self = PDict d" and "timing_readable d"
  shows "completes (analyze_timing self)"
proof -
  from assms(2) obtain td where td: "dict_get d ''advanced_timing'' (PDict []) = PDict td"
    and c: "falsy_or_number (dict_get td ''time_to_first_click'' PNone)"
    and i: "falsy_or_number (dict_get td ''time_to_first_interaction'' PNone)"
    by (cases "dict_get d ''advanced_timing'' (PDict [])") (auto simp: timing_readable_def)
  obtain fc fi where "present_and_below td ''time_to_first_click'' 100 = Inr fc"
    and "present_and_below td ''time_to_first_interaction'' 50 = Inr fi"
    using present_and_below_completes [OF c, of 100] present_and_below_completes [OF i, of 50]
    by (auto simp: completes_iff)
  then show ?thesis
    using assms(1) td by (simp add: analyze_timing_def bind_exc_def Let_def)
qed

lemma css_completes:
  assumes "fingerprint self = PDict d" and "is_dict (dict_get d ''css_media_queries'' (PDict []))"
  shows "completes (analyze_css_media self)"
  using assms
  by (cases "dict_get d ''css_media_queries'' (PDict [])")
     (simp_all add: analyze_css_media_def is_dict_def)

lemma speech_completes:
  assumes "fingerprint self = PDict d" and "speech_readable d"
  shows "completes (analyze_speech self)"
  using assms
  by (auto simp: analyze_speech_def speech_readable_def is_number_def gt_int_def bind_exc_def)

lemma hints_complete:
  assumes "fingerprint self = PDict d" and "hints_readable d"
  shows "completes (analyze_client_hints self)"
proof (cases "truthy (dict_get d ''client_hints'' (PDict []))")
  case False
  then show ?thesis using assms(1) by (simp add: analyze_client_hints_def Let_def)
next
  case True
  then obtain h e where "dict_get d ''client_hints'' (PDict []) = PDict h"
    and "dict_get d ''client_hints_high_entropy'' (PDict []) = PDict e"
    using assms(2)
    by (cases "dict_get d ''client_hints'' (PDict [])";
        cases "dict_get d ''client_hints_high_entropy'' (PDict [])")
       (auto simp: hints_readable_def is_dict_def)
  then show ?thesis
    using assms(1) True by (simp add: analyze_client_hints_def Let_def bind_exc_def)
qed

lemma well_typed_analyzers_complete:
  assumes "fingerprint self = PDict d" and "well_typed E d"
  shows "analyzers_complete E self"
  using assms(2) unfolding well_typed_def analyzers_complete_def
  by (intro conjI fingerprint_analysis_completes [OF assms(1)]
      proxy_detection_completes [OF assms(1)] automation_detection_completes [OF assms(1)]
      consistency_completes [OF assms(1)] tls_completes [OF assms(1)]
      signals_complete [OF assms(1)] advanced_completes [OF assms(1)]
      vm_completes [OF assms(1)] extensions_complete [OF assms(1)]
      timing_completes [OF assms(1)] css_completes [OF assms(1)]
      speech_completes [OF assms(1)] hints_complete [OF assms(1)]) simp_all

lemma analyzers_complete_analyze:
  assumes "analyzers_complete E (self0\<lparr>fingerprint := (if truthy cf then cf else PDict [])\<rparr>)"
  shows "completes (analyze E self0 cf)"
  using assms unfolding analyzers_complete_def analyze_def Let_def
  by (auto simp: completes_iff bind_exc_def)

lemma well_typed_analyze_completes:
  assumes "well_typed E d"
  shows "completes (analyze E self0 (PDict d))"
proof (rule analyzers_complete_analyze)
  show "analyzers_complete E
          (self0\<lparr>fingerprint := (if truthy (PDict d) then PDict d else PDict [])\<rparr>)"
    by (rule well_typed_analyzers_complete [OF _ assms]) simp
qed

lemma well_typed_empty: "well_typed E []"
  by (simp add: well_typed_def languages_readable_def screen_readable_def proxy_readable_def
      consistency_readable_def signals_readable_def advanced_readable_def timing_readable_def
      speech_readable_def hints_readable_def behaviour_readable_def str_list_or_falsy_def
      falsy_or_number_def is_number_def is_int_def is_dict_def dict_get_def)


lemma dict_get_without_key:
  "dict_get (without_key k d) k' dflt = (if k' = k then dflt else dict_get d k' dflt)"
proof -
  have "map_of (filter (\<lambda>(k', v). k' \<noteq> k) d) k' = (if k' = k then None else map_of d k')"
    by (induction d) auto
  then show ?thesis
    by (simp add: dict_get_def without_key_def)
qed

lemma dict_get_Nil: "dict_get [] k dflt = dflt"
  by (simp add: dict_get_def)

lemma behaviour_readable_empty: "behaviour_readable E keys (PDict [])"
  by (simp add: behaviour_readable_def)

lemma well_typed_without_key:
  assumes "well_typed E d"
  shows "well_typed E (without_key k d)"
proof -
  have "languages_readable (without_key k d)"
    using assms by (simp add: well_typed_def languages_readable_def dict_get_without_key)
  moreover have "screen_readable (without_key k d)"
    using assms
    by (simp add: well_typed_def screen_readable_def dict_get_without_key is_number_def)
  moreover have "proxy_readable (without_key k d)"
    using assms
    by (simp add: well_typed_def proxy_readable_def dict_get_without_key str_list_or_falsy_def)
  moreover have "consistency_readable (without_key k d)"
    using assms
    by (simp add: well_typed_def consistency_readable_def dict_get_without_key is_number_def)
  moreover have "signals_readable (without_key k d)"
    using assms
    by (simp add: well_typed_def signals_readable_def dict_get_without_key is_int_def)
  moreover have "advanced_readable E (without_key k d)"
    using assms
    by (simp add: well_typed_def advanced_readable_def dict_get_without_key
        behaviour_readable_empty)
  moreover have "is_dict (dict_get (without_key k d) ''vm_detection'' (PDict []))"
    "is_dict (dict_get (without_key k d) ''browser_extensions'' (PDict []))"
    "is_dict (dict_get (without_key k d) ''css_media_queries'' (PDict []))"
    using assms by (simp_all add: well_typed_def dict_get_without_key is_dict_def)
  moreover have "timing_readable (without_key k d)"
    using assms
    by (simp add: well_typed_def timing_readable_def dict_get_without_key falsy_or_number_def
        dict_get_Nil)
  moreover have "speech_readable (without_key k d)"
    using assms
    by (auto simp: well_typed_def speech_readable_def dict_get_without_key is_number_def)
  moreover have "hints_readable (without_key k d)"
    using assms
    by (auto simp: well_typed_def hints_readable_def dict_get_without_key is_dict_def)
  ultimately show ?thesis
    by (simp add: well_typed_def)
qed

lemma fingerprint_with [simp]: "fingerprint (with_fingerprint fp) = fp"
  by (simp add: with_fingerprint_def)

lemma signals_empty_payload:
  "analyze_behavioral_signals E (with_fingerprint (PDict [])) =
     Inr \<lparr> mouse_movement = PBool False, keyboard_input = PBool False,
           touch_support = PBool False, page_focus = PBool True,
           bs_scroll_behavior = PBool False, behavioral_score = ''bot_likely'' \<rparr>"
  by (simp add: analyze_behavioral_signals_def dict_get_def py_sum_def bind_exc_def ge_int_def
      Let_def)

text \<open>
  C4, as the specification words it, fails. A payload whose \<^verbatim>\<open>platform\<close> is the number 5
  makes the consistency checker raise AttributeError; one whose \<^verbatim>\<open>has_scroll\<close> is the
  text \<^verbatim>\<open>yes\<close> makes the behavioural analyzer raise TypeError; and on the empty payload
  the absent \<^verbatim>\<open>has_page_focus\<close> is read as \<^verbatim>\<open>True\<close>, which is none of 0, the empty sequence,
  false and null.
\<close>

theorem ill_typed_payload_raises:
  "check_consistency sample_externals (with_fingerprint (PDict [(''platform'', PInt 5)]))
     = Inl AttributeError
   \<and> analyze_behavioral_signals sample_externals
         (with_fingerprint (PDict [(''has_scroll'', PStr ''yes'')]))
     = Inl TypeError
   \<and> analyze_behavioral_signals sample_externals (with_fingerprint (PDict [])) =
       Inr \<lparr> mouse_movement = PBool False, keyboard_input = PBool False,
             touch_support = PBool False, page_focus = PBool True,
             bs_scroll_behavior = PBool False, behavioral_score = ''bot_likely'' \<rparr>"
  by (simp add: check_consistency_def os_consistency_def analyze_behavioral_signals_def
      dict_get_def py_sum_def bind_exc_def ge_int_def Let_def)

text \<open>
  C4, amended. The empty payload is well typed, and a well-typed payload stays so when
  any key is taken away: every condition holds of the default read for an absent key.
  On a well-typed payload every analyzer that reads the payload and the consistency
  checker complete without raising, and so does the whole analysis. On the empty
  payload the behavioural signals are their defaults: false, and true for the page
  focus.
\<close>

theorem well_typed_payload_completes:
  "well_typed E []
   \<and> (well_typed E d \<longrightarrow> well_typed E (without_key k d))
   \<and> (well_typed E d \<and> fingerprint self = PDict d \<longrightarrow> analyzers_complete E self)
   \<and> (well_typed E d \<longrightarrow> completes (analyze E self0 (PDict d)))
   \<and> analyze_behavioral_signals E (with_fingerprint (PDict [])) =
       Inr \<lparr> mouse_movement = PBool False, keyboard_input = PBool False,
             touch_support = PBool False, page_focus = PBool True,
             bs_scroll_behavior = PBool False, behavioral_score = ''bot_likely'' \<rparr>"
  using well_typed_empty well_typed_without_key well_typed_analyzers_complete
    well_typed_analyze_completes signals_empty_payload
  by blast

lemma well_typed_sample: "well_typed sample_externals sample_fingerprint"
  by (simp add: well_typed_def languages_readable_def screen_readable_def proxy_readable_def
      consistency_readable_def signals_readable_def advanced_readable_def timing_readable_def
      speech_readable_def hints_readable_def behaviour_readable_def str_list_or_falsy_def
      falsy_or_number_def is_number_def is_int_def is_dict_def is_str_def sized_def floatable_def
      int_to_float_def dict_get_def sample_fingerprint_def)

text \<open>The sample payload is well typed; it and the payload without its canvas entry
  are analysed to the end.\<close>

theorem well_typed_payload_witness:
  "well_typed sample_externals sample_fingerprint
   \<and> fingerprint (with_fingerprint (PDict sample_fingerprint)) = PDict sample_fingerprint
   \<and> well_typed sample_externals (without_key ''canvas'' sample_fingerprint)
   \<and> analyzers_complete sample_externals (with_fingerprint (PDict sample_fingerprint))
   \<and> completes (analyze sample_externals (init browser_request) (PDict sample_fingerprint))"
  using well_typed_payload_completes
          [of sample_externals sample_fingerprint "''canvas''"
              "with_fingerprint (PDict sample_fingerprint)" "init browser_request"]
    well_typed_sample
  by simp

subsection \<open>The timing analysis and the canvas entry\<close>

text \<open>
  C9 fails on the code at a time of 0: a first click reported at 0 ms is below 100 ms,
  and the timing analysis reports the suspicion level none, because the test
  \<^verbatim>\<open>t.get(k) and t[k] < 100\<close> takes the number 0 for an absent entry.
\<close>

theorem zero_click_time_not_flagged:
  "analyze_timing
     (with_fingerprint (PDict [(''advanced_timing'', PDict [(''time_to_first_click'', PInt 0)])]))
   = Inr \<lparr> page_load_time = PInt 0, time_to_first_interaction = PNone,
           time_to_first_click = PInt 0, time_to_first_scroll = PNone,
           suspicion_level = ''none'', reason = None \<rparr>"
  by (simp add: analyze_timing_def bind_exc_def dict_get_def present_and_below_def)

text \<open>Every other number below 100 is flagged, as the analyzer's message says.\<close>

lemma fast_click_flagged:
  assumes "fingerprint self = PDict d"
    and "map_of d ''advanced_timing'' = Some (PDict td)"
    and "map_of td ''time_to_first_click'' = Some v"
    and "num_of v = Some q" and "q \<noteq> 0" and "q < 100"
  shows "\<exists>a. analyze_timing self = Inr a \<and> suspicion_level a = ''high''
           \<and> reason a = Some ''Clicked too fast (< 100ms)''"
proof -
  have "truthy v"
    using assms(4,5) by (cases v) (auto split: if_splits)
  then show ?thesis
    using assms
    by (simp add: analyze_timing_def bind_exc_def dict_get_def present_and_below_def lt_int_def)
qed

lemma manipulation_check_artifacts:
  "manipulation_indicators a \<noteq> [] \<Longrightarrow> manipulation_indicators (check_artifacts d a) \<noteq> []"
proof -
  have "manipulation_indicators a \<noteq> [] \<Longrightarrow>
        manipulation_indicators
          (foldl (\<lambda>a p. if truthy (dict_get d p PNone)
                         then add_manipulation ''Automation artifact detected'' (''window.'' @ p) a
                         else a) a ps) \<noteq> []" for ps
    by (induction ps arbitrary: a) (auto simp: add_manipulation_def)
  then show "manipulation_indicators a \<noteq> [] \<Longrightarrow> manipulation_indicators (check_artifacts d a) \<noteq> []"
    by (simp add: check_artifacts_def)
qed

lemma manipulation_check_timezone:
  "manipulation_indicators (check_timezone d a) = manipulation_indicators a"
  by (simp add: check_timezone_def add_inconsistency_def)

lemma manipulation_check_webgl:
  "manipulation_indicators (check_webgl d a) = manipulation_indicators a"
  by (simp add: check_webgl_def add_inconsistency_def Let_def)

lemma manipulation_check_screen:
  "check_screen d a = Inr a' \<Longrightarrow> manipulation_indicators a' = manipulation_indicators a"
  by (auto simp: check_screen_def add_inconsistency_def Let_def bind_exc_def
      split: if_splits sum.splits)

lemma manipulation_check_canvas:
  "canvas_unavailable d \<Longrightarrow> manipulation_indicators (check_canvas d a) \<noteq> []"
  by (auto simp: check_canvas_def canvas_unavailable_def add_manipulation_def dict_get_def
      eq_str_def Let_def split: option.splits)

lemma quality_determine:
  "manipulation_indicators a \<noteq> [] \<Longrightarrow> fp_quality (determine_quality a) = ''bad''"
  "manipulation_indicators (determine_quality a) = manipulation_indicators a"
  by (simp_all add: determine_quality_def Let_def)

lemma fingerprint_bad_when_canvas_unavailable:
  assumes "fingerprint self = PDict d" and "d \<noteq> []" and "canvas_unavailable d"
    and "analyze_browser_fingerprint self = Inr a"
  shows "manipulation_indicators a \<noteq> [] \<and> fp_quality a = ''bad''"
proof -
  from assms(1,2,4) obtain a1 a2 where
    a2: "check_screen d (check_webgl d (check_canvas d a1)) = Inr a2"
    and a: "a = determine_quality (check_artifacts d (check_timezone d a2))"
    by (auto simp: analyze_browser_fingerprint_def Let_def bind_exc_def split: sum.splits)
  have "manipulation_indicators a2 \<noteq> []"
    using manipulation_check_screen [OF a2] manipulation_check_canvas [OF assms(3), of a1]
    by (simp add: manipulation_check_webgl)
  then have "manipulation_indicators (check_artifacts d (check_timezone d a2)) \<noteq> []"
    by (intro manipulation_check_artifacts) (simp add: manipulation_check_timezone)
  then show ?thesis
    by (simp add: a quality_determine)
qed

lemma red_flags_simps [simp]:
  "red_flags (add_score n r) = red_flags r"
  "red_flags (red_flag f r) = red_flags r @ [f]"
  "red_flags (green_flag f r) = red_flags r"
  by (simp_all add: add_score_def red_flag_def green_flag_def)

lemma red_flags_mono:
  "f \<in> set (red_flags r) \<Longrightarrow> f \<in> set (red_flags (score_proxy_risk pr r))"
  "f \<in> set (red_flags r) \<Longrightarrow> f \<in> set (red_flags (score_automation ac r))"
  "f \<in> set (red_flags r) \<Longrightarrow> f \<in> set (red_flags (score_consistency cc r))"
  "f \<in> set (red_flags r) \<Longrightarrow> f \<in> set (red_flags (score_threat lvl r))"
  "f \<in> set (red_flags r) \<Longrightarrow> f \<in> set (red_flags (score_likelihood hl r))"
  "f \<in> set (red_flags r) \<Longrightarrow> f \<in> set (red_flags (score_mouse mb r))"
  "f \<in> set (red_flags r) \<Longrightarrow> f \<in> set (red_flags (score_click cb r))"
  "f \<in> set (red_flags r) \<Longrightarrow> f \<in> set (red_flags (score_vm vm r))"
  "f \<in> set (red_flags r) \<Longrightarrow> f \<in> set (red_flags (score_timing tim r))"
  "f \<in> set (red_flags r) \<Longrightarrow> f \<in> set (red_flags (score_extensions ext r))"
  "f \<in> set (red_flags r) \<Longrightarrow> f \<in> set (red_flags (cap_score r))"
  "f \<in> set (red_flags r) \<Longrightarrow> f \<in> set (red_flags (determine_risk_level r))"
  "f \<in> set (red_flags r) \<Longrightarrow> f \<in> set (red_flags (calculate_confidence r))"
  by (simp_all add: score_proxy_risk_def score_automation_def score_consistency_def
      score_threat_def score_likelihood_def score_mouse_def score_click_def score_vm_def
      score_timing_def score_extensions_def cap_score_def determine_risk_level_def
      calculate_confidence_def split: option.splits)

lemma bad_fingerprint_red_flag:
  assumes "fp_quality (browser_fingerprint res) = ''bad''"
  shows "''Manipulated fingerprint'' \<in> set (red_flags (calculate_risk_score res))"
proof -
  have "''Manipulated fingerprint'' \<in> set (red_flags (score_fp_quality ''bad'' r))" for r
    by (simp add: score_fp_quality_def)
  then show ?thesis
    unfolding calculate_risk_score_def score_findings_def Let_def assms
    by (intro red_flags_mono)
qed


lemma analyze_Inr:
  assumes "analyze E self0 cf = Inr res"
  shows "analyze_browser_fingerprint
           (self0\<lparr>fingerprint := (if truthy cf then cf else PDict [])\<rparr>)
         = Inr (browser_fingerprint res)"
    and "risk_assessment res = calculate_risk_score res"
  using assms
  by (auto simp: analyze_def Let_def bind_exc_def results.defs calculate_risk_score_def
      score_findings_def split: sum.splits)

text \<open>
  C10. For a non-empty payload whose canvas entry is absent, falsy or \<^verbatim>\<open>blocked\<close>: when the
  fingerprint analyzer returns, it has recorded a manipulation indicator and its quality
  is bad, and it returns whenever the languages and the screen dimensions can be read;
  every assessment the pipeline produces for such a payload has the bad fingerprint
  quality, is not genuine and carries the red flag; the aggregator's fingerprint block
  adds 30, appends the red flag and clears the genuine flag.
\<close>

theorem canvas_unavailable_brands_manipulated:
  assumes "d \<noteq> []" and "canvas_unavailable d"
  shows "(\<forall>self a. fingerprint self = PDict d \<and> analyze_browser_fingerprint self = Inr a
            \<longrightarrow> manipulation_indicators a \<noteq> [] \<and> fp_quality a = ''bad'')
     \<and> (\<forall>self. fingerprint self = PDict d \<and> languages_readable d \<and> screen_readable d
            \<longrightarrow> completes (analyze_browser_fingerprint self))
     \<and> (\<forall>res. analyze E (init req) (PDict d) = Inr res
            \<longrightarrow> fp_quality (browser_fingerprint res) = ''bad''
                \<and> \<not> is_genuine (risk_assessment res)
                \<and> ''Manipulated fingerprint'' \<in> set (red_flags (risk_assessment res)))
     \<and> (\<forall>r. total_score (score_fp_quality ''bad'' r) = total_score r + 30
              \<and> red_flags (score_fp_quality ''bad'' r) = red_flags r @ [''Manipulated fingerprint'']
              \<and> \<not> is_genuine (score_fp_quality ''bad'' r))"
proof (intro conjI allI impI)
  fix self :: visitor_analyzer and a
  assume "fingerprint self = PDict d \<and> analyze_browser_fingerprint self = Inr a"
  then show "manipulation_indicators a \<noteq> []" and "fp_quality a = ''bad''"
    using fingerprint_bad_when_canvas_unavailable [OF _ assms] by blast+
next
  fix self :: visitor_analyzer
  assume "fingerprint self = PDict d \<and> languages_readable d \<and> screen_readable d"
  then show "completes (analyze_browser_fingerprint self)"
    using fingerprint_analysis_completes by blast
next
  fix res :: full_results
  assume res: "analyze E (init req) (PDict d) = Inr res"
  have "analyze_browser_fingerprint ((init req)\<lparr>fingerprint := PDict d\<rparr>)
          = Inr (browser_fingerprint res)"
    using analyze_Inr(1) [OF res] assms(1) by simp
  then show bad: "fp_quality (browser_fingerprint res) = ''bad''"
    using fingerprint_bad_when_canvas_unavailable
            [OF _ assms, of "(init req)\<lparr>fingerprint := PDict d\<rparr>" "browser_fingerprint res"]
    by simp
  show "\<not> is_genuine (risk_assessment res)"
    unfolding analyze_Inr(2) [OF res] calculate_risk_score_def score_findings_def Let_def
      is_genuine_blocks
    using bad by simp
  show "''Manipulated fingerprint'' \<in> set (red_flags (risk_assessment res))"
    unfolding analyze_Inr(2) [OF res] using bad by (rule bad_fingerprint_red_flag)
next
  fix r
  show "total_score (score_fp_quality ''bad'' r) = total_score r + 30"
    and "red_flags (score_fp_quality ''bad'' r) = red_flags r @ [''Manipulated fingerprint'']"
    and "\<not> is_genuine (score_fp_quality ''bad'' r)"
    by (simp_all add: score_fp_quality_def)
qed

text \<open>The sample payload without its canvas entry: well typed, and branded.\<close>

theorem canvas_unavailable_witness:
  "without_key ''canvas'' sample_fingerprint \<noteq> []
   \<and> canvas_unavailable (without_key ''canvas'' sample_fingerprint)
   \<and> languages_readable (without_key ''canvas'' sample_fingerprint)
   \<and> screen_readable (without_key ''canvas'' sample_fingerprint)
   \<and> (\<exists>a. analyze_browser_fingerprint
              (with_fingerprint (PDict (without_key ''canvas'' sample_fingerprint))) = Inr a
            \<and> manipulation_indicators a \<noteq> [] \<and> fp_quality a = ''bad'')
   \<and> (\<exists>res. analyze sample_externals (init browser_request)
                 (PDict (without_key ''canvas'' sample_fingerprint)) = Inr res
            \<and> fp_quality (browser_fingerprint res) = ''bad''
            \<and> \<not> is_genuine (risk_assessment res)
            \<and> ''Manipulated fingerprint'' \<in> set (red_flags (risk_assessment res)))"
proof -
  let ?d = "without_key ''canvas'' sample_fingerprint"
  have wt: "well_typed sample_externals ?d"
    by (rule well_typed_without_key [OF well_typed_sample])
  have h1: "?d \<noteq> []"
    by (simp add: without_key_def sample_fingerprint_def)
  have h2: "canvas_unavailable ?d"
    by (simp add: canvas_unavailable_def without_key_def sample_fingerprint_def)
  have h3: "languages_readable ?d" and h4: "screen_readable ?d"
    using wt by (simp_all add: well_typed_def)
  note main = canvas_unavailable_brands_manipulated [OF h1 h2, of sample_externals browser_request]
  from main h3 h4 obtain a where
    a: "analyze_browser_fingerprint (with_fingerprint (PDict ?d)) = Inr a"
    by (metis fingerprint_with completes_iff)
  with main have "manipulation_indicators a \<noteq> [] \<and> fp_quality a = ''bad''"
    by (metis fingerprint_with)
  moreover obtain res where
    res: "analyze sample_externals (init browser_request) (PDict ?d) = Inr res"
    using well_typed_analyze_completes [OF wt, of "init browser_request"]
    by (auto simp: completes_iff)
  moreover from main res have "fp_quality (browser_fingerprint res) = ''bad''
      \<and> \<not> is_genuine (risk_assessment res)
      \<and> ''Manipulated fingerprint'' \<in> set (red_flags (risk_assessment res))"
    by blast
  ultimately show ?thesis
    using h1 h2 h3 h4 a by blast
qed

end
